theory Spec2Isabelle
  imports Complex_Main "HOL-Library.AList"
begin

section \<open>The VQE solver of \<open>vqe_solver.py\<close>\<close>

text \<open>
  A shallow embedding of class \<open>VQESolver\<close>. Exceptions are values of type \<open>error\<close>;
  a method that mutates the solver takes the solver and returns the outcome together with
  the solver as the method left it, so that the state after a raised exception can be
  read. A float64 value is the real number it denotes (no infinities, no NaN). The two
  float64 operations of the class, the \<open>+=\<close> and the \<open>0.5 *\<close> of \<open>get_rdm\<close>, round their
  result: they are parameters \<open>float64_add\<close> and \<open>float64_mul\<close>, of which nothing is
  assumed.
\<close>

subsection \<open>Exceptions and Python values\<close>

datatype error =
    KeyError string
  | ValueError string
  | TypeError string
  | RuntimeError string
  | AttributeError string
  | IndexError
  | Collaborator string
    \<comment> \<open>an exception raised inside a collaborator (mean field, mapping, ansatz, backend,
        minimiser); it is never caught by the solver\<close>

text \<open>The classes of the error taxonomy: \<open>ValueError\<close> and \<open>KeyError\<close> are the
  configuration errors, \<open>RuntimeError\<close> is the precondition error.\<close>

fun is_RuntimeError :: "error \<Rightarrow> bool" where
  "is_RuntimeError (RuntimeError m) = True"
| "is_RuntimeError e = False"

datatype Ansatze = UCCSD | UCC1 | UCC3

text \<open>\<open>"{}".format(self.ansatz)\<close> for a member of the enumeration.\<close>

fun format_Ansatze :: "Ansatze \<Rightarrow> string" where
  "format_Ansatze UCCSD = ''Ansatze.UCCSD''"
| "format_Ansatze UCC1 = ''Ansatze.UCC1''"
| "format_Ansatze UCC3 = ''Ansatze.UCC3''"

text \<open>
  The values an options dictionary can hold. \<open>PyObject\<close> is an instance of a class
  that defines neither \<open>__bool__\<close> nor \<open>__len__\<close> (a molecule, a mean field, an ansatz,
  a function), so it is true in a boolean context.
\<close>

datatype 'x pyval =
    PyNone
  | PyBool bool
  | PyInt int
  | PyStr string
  | PyList "'x pyval list"
  | PySet "'x pyval list"
  | PyDict "(string \<times> 'x pyval) list"
  | PyEnum Ansatze
  | PyBoundMethod string
  | PyObject 'x

fun truthy :: "'x pyval \<Rightarrow> bool" where
  "truthy PyNone = False"
| "truthy (PyBool b) = b"
| "truthy (PyInt i) = (i \<noteq> 0)"
| "truthy (PyStr s) = (s \<noteq> [])"
| "truthy (PyList xs) = (xs \<noteq> [])"
| "truthy (PySet xs) = (xs \<noteq> [])"
| "truthy (PyDict kvs) = (kvs \<noteq> [])"
| "truthy (PyEnum a) = True"
| "truthy (PyBoundMethod n) = True"
| "truthy (PyObject x) = True"

subsection \<open>Construction: \<open>VQESolver.__init__\<close>\<close>

text \<open>
  The instance dictionary \<open>self.__dict__\<close> is an association list in insertion order.
  \<open>__init__\<close> makes \<open>default_options\<close> itself the instance dictionary, so every
  \<open>setattr\<close> of the loop writes into the dictionary that \<open>k in default_options\<close> reads.
\<close>

type_synonym 'x attrs = "(string \<times> 'x pyval) list"

definition default_backend_options :: "'x attrs" where
  "default_backend_options =
     [(''target'', PyStr ''qulacs''), (''n_shots'', PyNone), (''noise_model'', PyNone)]"

definition default_options :: "'x attrs" where
  "default_options =
     [(''molecule'', PyNone), (''mean_field'', PyNone), (''frozen_orbitals'', PyList []),
      (''qubit_mapping'', PyStr ''jw''), (''ansatz'', PyEnum UCCSD),
      (''optimizer'', PyBoundMethod ''_default_optimizer''),
      (''initial_var_params'', PyNone),
      (''backend_options'', PyDict default_backend_options),
      (''up_then_down'', PyBool False),
      (''verbose'', PyBool False)]"

definition keyword_message :: "string \<Rightarrow> string" where
  "keyword_message k = ''Keyword :: '' @ k @ '', not available in VQESolver''"

definition molecule_message :: string where
  "molecule_message = ''A molecule object must be provided when instantiating VQESolver''"

text \<open>The loop over \<open>opt_dict.items()\<close>; \<open>d\<close> is the instance dictionary.\<close>

fun init_loop :: "'x attrs \<Rightarrow> 'x attrs \<Rightarrow> error + 'x attrs" where
  "init_loop [] d = Inr d"
| "init_loop ((k, v) # kvs) d =
     (if k \<in> fst ` set d then init_loop kvs (AList.update k v d)
      else Inl (KeyError (keyword_message k)))"

definition init :: "'x attrs \<Rightarrow> error + 'x attrs" where
  "init opt_dict =
     (case init_loop opt_dict default_options of
        Inl e \<Rightarrow> Inl e
      | Inr d \<Rightarrow>
          (case map_of d ''molecule'' of
             None \<Rightarrow> Inl (AttributeError ''molecule'')
           | Some m \<Rightarrow>
               if \<not> truthy m then Inl (ValueError molecule_message)
               else Inr (AList.update ''builtin_ansatze''
                           (PySet [PyEnum UCCSD, PyEnum UCC1, PyEnum UCC3])
                        (AList.update ''optimal_var_params'' PyNone
                        (AList.update ''optimal_energy'' PyNone d)))))"

text \<open>The recognized configuration surface: the keys of \<open>default_options\<close>.\<close>

definition recognized :: "string list" where
  "recognized =
     [''molecule'', ''mean_field'', ''frozen_orbitals'', ''qubit_mapping'', ''ansatz'',
      ''optimizer'', ''initial_var_params'', ''backend_options'', ''up_then_down'',
      ''verbose'']"

subsection \<open>Data of the solver\<close>

text \<open>
  A term key of the fermionic Hamiltonian is a tuple of ladder operators, each a pair
  (spin-orbital index, action); the Hamiltonian maps term keys to coefficients and is
  iterated in a fixed order, so it is an association list in iteration order.
\<close>

type_synonym ladder = "nat \<times> nat"
type_synonym term_key = "ladder list"
type_synonym fermionic_op = "(term_key \<times> complex) list"

text \<open>What the solver reads from the \<open>MolecularData\<close> object it builds.\<close>

record molecular_data =
  n_qubits :: nat
  n_electrons :: nat
  molecular_hamiltonian :: fermionic_op

text \<open>
  The attribute \<open>ansatz\<close> holds a member of the enumeration, an instance of class
  \<open>Ansatz\<close>, or, when the caller passed something else, a value that is neither
  (of which only its truth value matters).
\<close>

datatype 'a ansatz_attr = Builtin Ansatze | Instance 'a | Not_ansatz bool

fun ansatz_truthy :: "'a ansatz_attr \<Rightarrow> bool" where
  "ansatz_truthy (Builtin a) = True"
| "ansatz_truthy (Instance a) = True"
| "ansatz_truthy (Not_ansatz b) = b"

text \<open>\<open>initial_var_params\<close>: \<open>None\<close>, a keyword string or an array of values.\<close>

datatype var_params_attr = VP_None | VP_keyword string | VP_values "real list"

text \<open>
  A classical optimiser sees the solver only through the objective function it is handed.
  It is modelled by its strategy: it returns, raises, or asks for the objective at a
  point and continues with the value it gets.
\<close>

datatype 'r strategy =
    Return 'r
  | Raise error
  | Evaluate "real list" "real \<Rightarrow> 'r strategy"

record opt_result =
  res_x :: "real list"
  res_fun :: real
  res_nfev :: nat

datatype optimizer_attr =
    Default_optimizer
  | Custom_optimizer "var_params_attr \<Rightarrow> real strategy"

text \<open>
  The attributes of a \<open>VQESolver\<close>, at the types its docstring documents. The last
  four are assigned by \<open>build\<close> only: \<open>None\<close> there is an attribute that does not exist
  yet, and reading it raises \<open>AttributeError\<close>. For \<open>mean_field\<close>, \<open>optimal_energy\<close>
  and \<open>optimal_var_params\<close>, \<open>None\<close> is Python's \<open>None\<close>.
\<close>

record ('m, 'f, 'q, 'a, 'b, 'o) solver =
  molecule :: 'm
  mean_field :: "'f option"
  frozen_orbitals :: "nat list"
  qubit_mapping :: string
  ansatz :: "'a ansatz_attr"
  optimizer :: optimizer_attr
  initial_var_params :: var_params_attr
  backend_options :: "(string \<times> 'o) list"
  up_then_down :: bool
  verbose :: bool
  optimal_energy :: "real option"
  optimal_var_params :: "real list option"
  qemist_molecule :: "molecular_data option"
  fermionic_hamiltonian :: "fermionic_op option"
  qubit_hamiltonian :: "'q option"
  backend :: "'b option"

text \<open>
  The collaborators the solver calls, as parameters: \<open>'q\<close> is a qubit operator,
  \<open>'t\<close> its dictionary of terms, \<open>'a\<close> an ansatz object, \<open>'c\<close> a circuit,
  \<open>'b\<close> a simulator. A method that mutates its object returns the object as it left it,
  also when it raises. The last two fields are the rounding addition and multiplication
  of float64.
\<close>

record ('m, 'f, 'q, 't, 'a, 'c, 'b, 'o) collaborators =
  prepare_mf_RHF :: "'m \<Rightarrow> error + 'f"
  MolecularData :: "'m \<Rightarrow> 'f \<Rightarrow> nat list \<Rightarrow> error + molecular_data"
  fermion_to_qubit_mapping :: "fermionic_op \<Rightarrow> string \<Rightarrow> nat \<Rightarrow> nat \<Rightarrow> bool \<Rightarrow> error + 'q"
  count_qubits :: "'q \<Rightarrow> nat"
  compress :: "'q \<Rightarrow> 'q"
  terms :: "'q \<Rightarrow> 't"
  new_UCCSD :: "molecular_data \<Rightarrow> string \<Rightarrow> 'f option \<Rightarrow> bool \<Rightarrow> error + 'a"
  new_RUCC :: "nat \<Rightarrow> error + 'a"
  set_var_params :: "'a \<Rightarrow> var_params_attr \<Rightarrow> (error + real list) \<times> 'a"
  build_circuit :: "'a \<Rightarrow> (error + unit) \<times> 'a"
  update_var_params :: "'a \<Rightarrow> real list \<Rightarrow> (error + unit) \<times> 'a"
  circuit :: "'a \<Rightarrow> 'c"
  mf_mo_energy :: "'a \<Rightarrow> error + real list"
  Simulator :: "'o \<Rightarrow> 'o \<Rightarrow> 'o \<Rightarrow> error + 'b"
  get_expectation_value :: "'b \<Rightarrow> 'q \<Rightarrow> 'c \<Rightarrow> (error + real) \<times> 'b"
  minimize :: "var_params_attr \<Rightarrow> opt_result strategy"
  float64_add :: "real \<Rightarrow> real \<Rightarrow> real"
  float64_mul :: "real \<Rightarrow> real \<Rightarrow> real"

subsection \<open>\<open>VQESolver.build\<close>\<close>

text \<open>Lines 82 to 93: mean field, molecular data, fermionic and qubit Hamiltonian.
  \<open>get_molecular_hamiltonian()\<close> is the field \<open>molecular_hamiltonian\<close> of the molecular
  data.\<close>

definition build_hamiltonian ::
  "('m, 'f, 'q, 't, 'a, 'c, 'b, 'o) collaborators \<Rightarrow> ('m, 'f, 'q, 'a, 'b, 'o) solver
     \<Rightarrow> (error + unit) \<times> ('m, 'f, 'q, 'a, 'b, 'o) solver" where
  "build_hamiltonian env s =
     (case (case mean_field s of Some f \<Rightarrow> Inr f | None \<Rightarrow> prepare_mf_RHF env (molecule s)) of
        Inl e \<Rightarrow> (Inl e, s)
      | Inr f \<Rightarrow>
          let s1 = s\<lparr>mean_field := Some f\<rparr> in
          (case MolecularData env (molecule s1) f (frozen_orbitals s1) of
             Inl e \<Rightarrow> (Inl e, s1)
           | Inr md \<Rightarrow>
               let s2 = s1\<lparr>qemist_molecule := Some md,
                          fermionic_hamiltonian := Some (molecular_hamiltonian md)\<rparr> in
               (case fermion_to_qubit_mapping env (molecular_hamiltonian md) (qubit_mapping s2)
                       (n_qubits md) (n_electrons md) (up_then_down s2) of
                  Inl e \<Rightarrow> (Inl e, s2)
                | Inr q \<Rightarrow> (Inr (), s2\<lparr>qubit_hamiltonian := Some q\<rparr>))))"

definition mapping_message :: "Ansatze \<Rightarrow> string" where
  "mapping_message a = ''Qubit mapping must be JW for '' @ format_Ansatze a @ '' ansatz.''"

definition ordering_message :: "Ansatze \<Rightarrow> string" where
  "ordering_message a =
     ''Parameter up_then_down must be set to True for '' @ format_Ansatze a @ '' ansatz.''"

definition homo_lumo_message :: "Ansatze \<Rightarrow> string" where
  "homo_lumo_message a =
     ''The system must be reduced to a HOMO-LUMO problem for '' @ format_Ansatze a @ '' ansatz.''"

text \<open>Lines 95 to 105: the compatibility checks of the reduced ansatze.\<close>

definition check_reduced ::
  "('m, 'f, 'q, 't, 'a, 'c, 'b, 'o) collaborators \<Rightarrow> ('m, 'f, 'q, 'a, 'b, 'o) solver
     \<Rightarrow> error + unit" where
  "check_reduced env s =
     (case ansatz s of
        Builtin a \<Rightarrow>
          if a = UCC1 \<or> a = UCC3 then
            if qubit_mapping s \<noteq> ''jw'' then Inl (ValueError (mapping_message a))
            else if \<not> up_then_down s then Inl (ValueError (ordering_message a))
            else (case qubit_hamiltonian s of
                    None \<Rightarrow> Inl (AttributeError ''qubit_hamiltonian'')
                  | Some q \<Rightarrow>
                      if count_qubits env q \<noteq> 4 then Inl (ValueError (homo_lumo_message a))
                      else Inr ())
          else Inr ()
      | Instance x \<Rightarrow> Inr ()
      | Not_ansatz b \<Rightarrow> Inr ())"

text \<open>Lines 107 to 118: the ansatz object. The text of the \<open>TypeError\<close> is cut before
  the listing of the built-in options.\<close>

definition select_ansatz ::
  "('m, 'f, 'q, 't, 'a, 'c, 'b, 'o) collaborators \<Rightarrow> ('m, 'f, 'q, 'a, 'b, 'o) solver
     \<Rightarrow> error + 'a" where
  "select_ansatz env s =
     (case ansatz s of
        Builtin UCCSD \<Rightarrow>
          (case qemist_molecule s of
             None \<Rightarrow> Inl (AttributeError ''qemist_molecule'')
           | Some md \<Rightarrow> new_UCCSD env md (qubit_mapping s) (mean_field s) (up_then_down s))
      | Builtin UCC1 \<Rightarrow> new_RUCC env 1
      | Builtin UCC3 \<Rightarrow> new_RUCC env 3
      | Instance x \<Rightarrow> Inr x
      | Not_ansatz b \<Rightarrow>
          Inl (TypeError ''Invalid ansatz dataype. Expecting instance of Ansatz class''))"

text \<open>Lines 107 to 121: select the ansatz, set its parameters, build its circuit.\<close>

definition build_ansatz ::
  "('m, 'f, 'q, 't, 'a, 'c, 'b, 'o) collaborators \<Rightarrow> ('m, 'f, 'q, 'a, 'b, 'o) solver
     \<Rightarrow> (error + unit) \<times> ('m, 'f, 'q, 'a, 'b, 'o) solver" where
  "build_ansatz env s =
     (case select_ansatz env s of
        Inl e \<Rightarrow> (Inl e, s)
      | Inr x \<Rightarrow>
          (case set_var_params env x (initial_var_params s) of
             (Inl e, x1) \<Rightarrow> (Inl e, s\<lparr>ansatz := Instance x1\<rparr>)
           | (Inr ps, x1) \<Rightarrow>
               (case build_circuit env x1 of
                  (Inl e, x2) \<Rightarrow>
                    (Inl e, s\<lparr>ansatz := Instance x2, initial_var_params := VP_values ps\<rparr>)
                | (Inr u, x2) \<Rightarrow>
                    (Inr (), s\<lparr>ansatz := Instance x2, initial_var_params := VP_values ps\<rparr>))))"

text \<open>Lines 123 to 125: the simulator; \<open>d[k]\<close> raises \<open>KeyError\<close> on a missing key.\<close>

definition getitem :: "(string \<times> 'o) list \<Rightarrow> string \<Rightarrow> error + 'o" where
  "getitem d k = (case map_of d k of None \<Rightarrow> Inl (KeyError k) | Some v \<Rightarrow> Inr v)"

definition build_backend ::
  "('m, 'f, 'q, 't, 'a, 'c, 'b, 'o) collaborators \<Rightarrow> ('m, 'f, 'q, 'a, 'b, 'o) solver
     \<Rightarrow> (error + unit) \<times> ('m, 'f, 'q, 'a, 'b, 'o) solver" where
  "build_backend env s =
     (case getitem (backend_options s) ''target'' of
        Inl e \<Rightarrow> (Inl e, s)
      | Inr t \<Rightarrow>
          (case getitem (backend_options s) ''n_shots'' of
             Inl e \<Rightarrow> (Inl e, s)
           | Inr n \<Rightarrow>
               (case getitem (backend_options s) ''noise_model'' of
                  Inl e \<Rightarrow> (Inl e, s)
                | Inr m \<Rightarrow>
                    (case Simulator env t n m of
                       Inl e \<Rightarrow> (Inl e, s)
                     | Inr b \<Rightarrow> (Inr (), s\<lparr>backend := Some b\<rparr>)))))"

definition build ::
  "('m, 'f, 'q, 't, 'a, 'c, 'b, 'o) collaborators \<Rightarrow> ('m, 'f, 'q, 'a, 'b, 'o) solver
     \<Rightarrow> (error + unit) \<times> ('m, 'f, 'q, 'a, 'b, 'o) solver" where
  "build env s =
     (case build_hamiltonian env s of
        (Inl e, s1) \<Rightarrow> (Inl e, s1)
      | (Inr u, s1) \<Rightarrow>
          (case check_reduced env s1 of
             Inl e \<Rightarrow> (Inl e, s1)
           | Inr u \<Rightarrow>
               (case build_ansatz env s1 of
                  (Inl e, s2) \<Rightarrow> (Inl e, s2)
                | (Inr u, s2) \<Rightarrow> build_backend env s2)))"

subsection \<open>\<open>VQESolver.energy_estimation\<close>\<close>

text \<open>
  Line 159 looks \<open>update_var_params\<close> up on \<open>self.ansatz\<close>: a member of the
  enumeration has no such method. Line 160 reads \<open>self.backend\<close>, then the arguments.
  The printing of the verbose mode touches no attribute and is left out.
\<close>

definition energy_estimation ::
  "('m, 'f, 'q, 't, 'a, 'c, 'b, 'o) collaborators \<Rightarrow> real list
     \<Rightarrow> ('m, 'f, 'q, 'a, 'b, 'o) solver \<Rightarrow> (error + real) \<times> ('m, 'f, 'q, 'a, 'b, 'o) solver" where
  "energy_estimation env var_params s =
     (case ansatz s of
        Builtin a \<Rightarrow> (Inl (AttributeError ''update_var_params''), s)
      | Not_ansatz v \<Rightarrow> (Inl (AttributeError ''update_var_params''), s)
      | Instance x \<Rightarrow>
          (case update_var_params env x var_params of
             (Inl e, x1) \<Rightarrow> (Inl e, s\<lparr>ansatz := Instance x1\<rparr>)
           | (Inr u, x1) \<Rightarrow>
               let s1 = s\<lparr>ansatz := Instance x1\<rparr> in
               (case backend s1 of
                  None \<Rightarrow> (Inl (AttributeError ''backend''), s1)
                | Some b \<Rightarrow>
                    (case qubit_hamiltonian s1 of
                       None \<Rightarrow> (Inl (AttributeError ''qubit_hamiltonian''), s1)
                     | Some q \<Rightarrow>
                         (case get_expectation_value env b q (circuit env x1) of
                            (Inl e, b1) \<Rightarrow> (Inl e, s1\<lparr>backend := Some b1\<rparr>)
                          | (Inr energy, b1) \<Rightarrow> (Inr energy, s1\<lparr>backend := Some b1\<rparr>))))))"

subsection \<open>The optimiser and \<open>VQESolver.simulate\<close>\<close>

text \<open>Running a strategy against an objective that mutates the state; an exception of
  the objective propagates through the optimiser.\<close>

primrec run_strategy ::
  "'r strategy \<Rightarrow> (real list \<Rightarrow> 's \<Rightarrow> (error + real) \<times> 's) \<Rightarrow> 's \<Rightarrow> (error + 'r) \<times> 's" where
  "run_strategy (Return r) func s = (Inr r, s)"
| "run_strategy (Raise e) func s = (Inl e, s)"
| "run_strategy (Evaluate p k) func s =
     (case func p s of
        (Inl e, s1) \<Rightarrow> (Inl e, s1)
      | (Inr v, s1) \<Rightarrow> run_strategy (k v) func s1)"

text \<open>\<open>_default_optimizer\<close>, lines 243 to 270; \<open>minimize\<close> is scipy's.\<close>

definition default_optimizer ::
  "('m, 'f, 'q, 't, 'a, 'c, 'b, 'o) collaborators
     \<Rightarrow> (real list \<Rightarrow> ('m, 'f, 'q, 'a, 'b, 'o) solver \<Rightarrow> (error + real) \<times> ('m, 'f, 'q, 'a, 'b, 'o) solver)
     \<Rightarrow> var_params_attr
     \<Rightarrow> ('m, 'f, 'q, 'a, 'b, 'o) solver \<Rightarrow> (error + real) \<times> ('m, 'f, 'q, 'a, 'b, 'o) solver" where
  "default_optimizer env func var_params s =
     (case run_strategy (minimize env var_params) func s of
        (Inl e, s1) \<Rightarrow> (Inl e, s1)
      | (Inr result, s1) \<Rightarrow>
          (Inr (res_fun result),
           s1\<lparr>optimal_var_params := Some (res_x result),
              optimal_energy := Some (res_fun result)\<rparr>))"

definition build_first_message :: string where
  "build_first_message =
     ''No ansatz circuit or hardware backend built. Have you called VQESolver.build ?''"

text \<open>
  \<open>simulate\<close>, lines 127 to 132. \<open>self.ansatz and self.backend\<close> reads \<open>self.backend\<close>
  only when \<open>self.ansatz\<close> is true; a \<open>Simulator\<close> object is true.
\<close>

definition simulate ::
  "('m, 'f, 'q, 't, 'a, 'c, 'b, 'o) collaborators
     \<Rightarrow> ('m, 'f, 'q, 'a, 'b, 'o) solver \<Rightarrow> (error + real) \<times> ('m, 'f, 'q, 'a, 'b, 'o) solver" where
  "simulate env s =
     (if \<not> ansatz_truthy (ansatz s) then (Inl (RuntimeError build_first_message), s)
      else
        (case backend s of
           None \<Rightarrow> (Inl (AttributeError ''backend''), s)
         | Some b \<Rightarrow>
             (case optimizer s of
                Default_optimizer \<Rightarrow>
                  default_optimizer env (energy_estimation env) (initial_var_params s) s
              | Custom_optimizer u \<Rightarrow>
                  run_strategy (u (initial_var_params s)) (energy_estimation env) s)))"

subsection \<open>\<open>VQESolver.get_rdm\<close>\<close>

text \<open>The local variables of \<open>get_rdm\<close> that the loop updates. The arrays are
  functions on index tuples; their common dimension \<open>n_mol_orbitals\<close> is kept beside.\<close>

record 't rdm_locals =
  rdm1_np :: "nat \<times> nat \<Rightarrow> real"
  rdm2_np :: "nat \<times> nat \<times> nat \<times> nat \<Rightarrow> real"
  lookup_ham :: "'t list"
  lookup_val :: "real list"

definition initial_locals :: "'t rdm_locals" where
  "initial_locals =
     \<lparr>rdm1_np = (\<lambda>ix. 0), rdm2_np = (\<lambda>ix. 0), lookup_ham = [], lookup_val = []\<rparr>"

text \<open>Lines 206 to 208: the copy of the Hamiltonian with its coefficients overwritten.\<close>

definition select_term :: "nat \<Rightarrow> term_key \<Rightarrow> fermionic_op \<Rightarrow> fermionic_op" where
  "select_term ikey key H =
     map (\<lambda>(key2, c). (key2, if key = key2 \<and> ikey \<noteq> 0 then 1 else 0)) H"

text \<open>\<open>list.index\<close>, the position of the first occurrence.\<close>

fun index_of :: "'t list \<Rightarrow> 't \<Rightarrow> nat" where
  "index_of [] x = 0"
| "index_of (y # ys) x = (if x = y then 0 else Suc (index_of ys x))"

text \<open>Lines 211 to 216: the compressed qubit operator of the selected term.\<close>

definition term_operator ::
  "('m, 'f, 'q, 't, 'a, 'c, 'b, 'o) collaborators \<Rightarrow> fermionic_op \<Rightarrow> nat \<Rightarrow> term_key
     \<Rightarrow> ('m, 'f, 'q, 'a, 'b, 'o) solver \<Rightarrow> error + 'q" where
  "term_operator env H ikey key s =
     (case qemist_molecule s of
        None \<Rightarrow> Inl (AttributeError ''qemist_molecule'')
      | Some md \<Rightarrow>
          (case fermion_to_qubit_mapping env (select_term ikey key H) (qubit_mapping s)
                  (n_qubits md) (n_electrons md) (up_then_down s) of
             Inl e \<Rightarrow> Inl e
           | Inr q \<Rightarrow> Inr (compress env q)))"

text \<open>Lines 206 to 225: the energy of one term, from the cache or from the estimator.
  \<open>H\<close> is \<open>self.fermionic_hamiltonian\<close>, which nothing in the loop assigns.\<close>

definition term_energy ::
  "('m, 'f, 'q, 't, 'a, 'c, 'b, 'o) collaborators \<Rightarrow> real list \<Rightarrow> fermionic_op \<Rightarrow> nat
     \<Rightarrow> term_key \<Rightarrow> 't rdm_locals \<Rightarrow> ('m, 'f, 'q, 'a, 'b, 'o) solver
     \<Rightarrow> (error + real \<times> 't rdm_locals) \<times> ('m, 'f, 'q, 'a, 'b, 'o) solver" where
  "term_energy env var_params H ikey key loc s =
     (case term_operator env H ikey key s of
        Inl e \<Rightarrow> (Inl e, s)
      | Inr qubit_hamiltonian2 \<Rightarrow>
          if terms env qubit_hamiltonian2 \<in> set (lookup_ham loc) then
            let i = index_of (lookup_ham loc) (terms env qubit_hamiltonian2) in
            if i < length (lookup_val loc) then (Inr (lookup_val loc ! i, loc), s)
            else (Inl IndexError, s)
          else
            (case energy_estimation env var_params
                    (s\<lparr>qubit_hamiltonian := Some qubit_hamiltonian2\<rparr>) of
               (Inl e, s1) \<Rightarrow> (Inl e, s1)
             | (Inr opt_energy2, s1) \<Rightarrow>
                 (Inr (opt_energy2,
                       loc\<lparr>lookup_ham := lookup_ham loc @ [terms env qubit_hamiltonian2],
                           lookup_val := lookup_val loc @ [opt_energy2]\<rparr>), s1)))"

text \<open>Lines 200 to 203 and 228 to 235: the orbital indices of the key and the update of
  the two arrays, with the additions and the product of float64; an index outside the
  array raises \<open>IndexError\<close>.\<close>

definition orbital :: "ladder \<Rightarrow> nat" where
  "orbital ele = fst ele div 2"

type_synonym rdm1_array = "nat \<times> nat \<Rightarrow> real"
type_synonym rdm2_array = "nat \<times> nat \<times> nat \<times> nat \<Rightarrow> real"

definition accumulate ::
  "('m, 'f, 'q, 't, 'a, 'c, 'b, 'o) collaborators \<Rightarrow> nat \<Rightarrow> term_key \<Rightarrow> real
     \<Rightarrow> rdm1_array \<Rightarrow> rdm2_array \<Rightarrow> error + rdm1_array \<times> rdm2_array" where
  "accumulate env n key opt_energy2 rdm1 rdm2 =
     (if length key = 2 then
        let iele = orbital (key ! 0); jele = orbital (key ! 1) in
        if iele < n \<and> jele < n then
          Inr (rdm1((iele, jele) := float64_add env (rdm1 (iele, jele)) opt_energy2), rdm2)
        else Inl IndexError
      else if length key = 4 then
        let iele = orbital (key ! 0); jele = orbital (key ! 1);
            kele = orbital (key ! 2); lele = orbital (key ! 3) in
        if iele < n \<and> jele < n \<and> kele < n \<and> lele < n then
          if iele \<noteq> lele \<or> jele \<noteq> kele then
            let r1 = rdm2((lele, iele, kele, jele) :=
                       float64_add env (rdm2 (lele, iele, kele, jele))
                         (float64_mul env 0.5 opt_energy2));
                r2 = r1((iele, lele, jele, kele) :=
                       float64_add env (r1 (iele, lele, jele, kele))
                         (float64_mul env 0.5 opt_energy2))
            in Inr (rdm1, r2)
          else
            Inr (rdm1, rdm2((iele, lele, jele, kele) :=
                         float64_add env (rdm2 (iele, lele, jele, kele)) opt_energy2))
        else Inl IndexError
      else Inr (rdm1, rdm2))"

text \<open>The body of the loop, lines 195 to 235.\<close>

definition get_rdm_step ::
  "('m, 'f, 'q, 't, 'a, 'c, 'b, 'o) collaborators \<Rightarrow> real list \<Rightarrow> fermionic_op \<Rightarrow> nat
     \<Rightarrow> nat \<Rightarrow> term_key \<Rightarrow> 't rdm_locals \<Rightarrow> ('m, 'f, 'q, 'a, 'b, 'o) solver
     \<Rightarrow> (error + 't rdm_locals) \<times> ('m, 'f, 'q, 'a, 'b, 'o) solver" where
  "get_rdm_step env var_params H n ikey key loc s =
     (if key = [] then (Inr loc, s)
      else
        (case term_energy env var_params H ikey key loc s of
           (Inl e, s1) \<Rightarrow> (Inl e, s1)
         | (Inr (opt_energy2, loc1), s1) \<Rightarrow>
             (case accumulate env n key opt_energy2 (rdm1_np loc1) (rdm2_np loc1) of
                Inl e \<Rightarrow> (Inl e, s1)
              | Inr (rdm1, rdm2) \<Rightarrow> (Inr (loc1\<lparr>rdm1_np := rdm1, rdm2_np := rdm2\<rparr>), s1))))"

fun get_rdm_loop ::
  "('m, 'f, 'q, 't, 'a, 'c, 'b, 'o) collaborators \<Rightarrow> real list \<Rightarrow> fermionic_op \<Rightarrow> nat
     \<Rightarrow> (nat \<times> term_key) list \<Rightarrow> 't rdm_locals \<Rightarrow> ('m, 'f, 'q, 'a, 'b, 'o) solver
     \<Rightarrow> (error + 't rdm_locals) \<times> ('m, 'f, 'q, 'a, 'b, 'o) solver" where
  "get_rdm_loop env var_params H n [] loc s = (Inr loc, s)"
| "get_rdm_loop env var_params H n ((ikey, key) # rest) loc s =
     (case get_rdm_step env var_params H n ikey key loc s of
        (Inl e, s1) \<Rightarrow> (Inl e, s1)
      | (Inr loc1, s1) \<Rightarrow> get_rdm_loop env var_params H n rest loc1 s1)"

text \<open>\<open>get_rdm\<close>, lines 182 to 240. There is no handler around the loop: an exception
  leaves the method at once, with the solver as it is at that point.\<close>

definition get_rdm ::
  "('m, 'f, 'q, 't, 'a, 'c, 'b, 'o) collaborators \<Rightarrow> real list
     \<Rightarrow> ('m, 'f, 'q, 'a, 'b, 'o) solver
     \<Rightarrow> (error + (nat \<times> nat \<Rightarrow> real) \<times> (nat \<times> nat \<times> nat \<times> nat \<Rightarrow> real))
          \<times> ('m, 'f, 'q, 'a, 'b, 'o) solver" where
  "get_rdm env var_params s =
     (case qubit_hamiltonian s of
        None \<Rightarrow> (Inl (AttributeError ''qubit_hamiltonian''), s)
      | Some tmp_hamiltonian \<Rightarrow>
          (case ansatz s of
             Builtin a \<Rightarrow> (Inl (AttributeError ''mf''), s)
           | Not_ansatz v \<Rightarrow> (Inl (AttributeError ''mf''), s)
           | Instance x \<Rightarrow>
               (case mf_mo_energy env x of
                  Inl e \<Rightarrow> (Inl e, s)
                | Inr mo_energy \<Rightarrow>
                    (case fermionic_hamiltonian s of
                       None \<Rightarrow> (Inl (AttributeError ''fermionic_hamiltonian''), s)
                     | Some H \<Rightarrow>
                         (case get_rdm_loop env var_params H (length mo_energy)
                                 (List.enumerate 0 (map fst H)) initial_locals s of
                            (Inl e, s1) \<Rightarrow> (Inl e, s1)
                          | (Inr loc, s1) \<Rightarrow>
                              (Inr (rdm1_np loc, rdm2_np loc),
                               s1\<lparr>qubit_hamiltonian := Some tmp_hamiltonian\<rparr>))))))"

subsection \<open>The extraction of section 4.5 of the specification\<close>

text \<open>
  Step 4 in the words of the specification: the cache is one ordered list of (structure,
  energy) pairs. A structure that is in the cache gives its cached energy, and nothing is
  substituted or evaluated; any other structure is made the active Hamiltonian, the
  estimator is invoked with the given parameters, and the new pair is appended.
\<close>

definition cached_energy ::
  "('m, 'f, 'q, 't, 'a, 'c, 'b, 'o) collaborators \<Rightarrow> real list \<Rightarrow> fermionic_op \<Rightarrow> nat
     \<Rightarrow> term_key \<Rightarrow> ('t \<times> real) list \<Rightarrow> ('m, 'f, 'q, 'a, 'b, 'o) solver
     \<Rightarrow> (error + real \<times> ('t \<times> real) list) \<times> ('m, 'f, 'q, 'a, 'b, 'o) solver" where
  "cached_energy env var_params H ikey key cache s =
     (case term_operator env H ikey key s of
        Inl e \<Rightarrow> (Inl e, s)
      | Inr q \<Rightarrow>
          (case map_of cache (terms env q) of
             Some energy \<Rightarrow> (Inr (energy, cache), s)
           | None \<Rightarrow>
               (case energy_estimation env var_params (s\<lparr>qubit_hamiltonian := Some q\<rparr>) of
                  (Inl e, s1) \<Rightarrow> (Inl e, s1)
                | (Inr energy, s1) \<Rightarrow> (Inr (energy, cache @ [(terms env q, energy)]), s1))))"

text \<open>The loop over the non-empty term keys with that cache, and the whole extraction.
  The exits are those of \<open>get_rdm\<close>.\<close>

fun cached_loop ::
  "('m, 'f, 'q, 't, 'a, 'c, 'b, 'o) collaborators \<Rightarrow> real list \<Rightarrow> fermionic_op \<Rightarrow> nat
     \<Rightarrow> (nat \<times> term_key) list \<Rightarrow> rdm1_array \<Rightarrow> rdm2_array \<Rightarrow> ('t \<times> real) list
     \<Rightarrow> ('m, 'f, 'q, 'a, 'b, 'o) solver
     \<Rightarrow> (error + (rdm1_array \<times> rdm2_array) \<times> ('t \<times> real) list)
          \<times> ('m, 'f, 'q, 'a, 'b, 'o) solver" where
  "cached_loop env var_params H n [] rdm1 rdm2 cache s = (Inr ((rdm1, rdm2), cache), s)"
| "cached_loop env var_params H n ((ikey, key) # rest) rdm1 rdm2 cache s =
     (if key = [] then cached_loop env var_params H n rest rdm1 rdm2 cache s
      else
        (case cached_energy env var_params H ikey key cache s of
           (Inl e, s1) \<Rightarrow> (Inl e, s1)
         | (Inr (energy, cache1), s1) \<Rightarrow>
             (case accumulate env n key energy rdm1 rdm2 of
                Inl e \<Rightarrow> (Inl e, s1)
              | Inr (rdm1', rdm2') \<Rightarrow>
                  cached_loop env var_params H n rest rdm1' rdm2' cache1 s1)))"

definition cached_get_rdm ::
  "('m, 'f, 'q, 't, 'a, 'c, 'b, 'o) collaborators \<Rightarrow> real list
     \<Rightarrow> ('m, 'f, 'q, 'a, 'b, 'o) solver
     \<Rightarrow> (error + rdm1_array \<times> rdm2_array) \<times> ('m, 'f, 'q, 'a, 'b, 'o) solver" where
  "cached_get_rdm env var_params s =
     (case qubit_hamiltonian s of
        None \<Rightarrow> (Inl (AttributeError ''qubit_hamiltonian''), s)
      | Some original \<Rightarrow>
          (case ansatz s of
             Builtin a \<Rightarrow> (Inl (AttributeError ''mf''), s)
           | Not_ansatz v \<Rightarrow> (Inl (AttributeError ''mf''), s)
           | Instance x \<Rightarrow>
               (case mf_mo_energy env x of
                  Inl e \<Rightarrow> (Inl e, s)
                | Inr mo_energy \<Rightarrow>
                    (case fermionic_hamiltonian s of
                       None \<Rightarrow> (Inl (AttributeError ''fermionic_hamiltonian''), s)
                     | Some H \<Rightarrow>
                         (case cached_loop env var_params H (length mo_energy)
                                 (List.enumerate 0 (map fst H)) (\<lambda>ix. 0) (\<lambda>ix. 0) [] s of
                            (Inl e, s1) \<Rightarrow> (Inl e, s1)
                          | (Inr (rdms, cache), s1) \<Rightarrow>
                              (Inr rdms, s1\<lparr>qubit_hamiltonian := Some original\<rparr>))))))"

text \<open>The energies of the non-empty terms in the order of the iteration, each from the
  cache or from the estimator as step 4 says; no array is involved.\<close>

fun term_energies ::
  "('m, 'f, 'q, 't, 'a, 'c, 'b, 'o) collaborators \<Rightarrow> real list \<Rightarrow> fermionic_op
     \<Rightarrow> (nat \<times> term_key) list \<Rightarrow> ('t \<times> real) list \<Rightarrow> ('m, 'f, 'q, 'a, 'b, 'o) solver
     \<Rightarrow> (error + (term_key \<times> real) list \<times> ('t \<times> real) list)
          \<times> ('m, 'f, 'q, 'a, 'b, 'o) solver" where
  "term_energies env var_params H [] cache s = (Inr ([], cache), s)"
| "term_energies env var_params H ((ikey, key) # rest) cache s =
     (if key = [] then term_energies env var_params H rest cache s
      else
        (case cached_energy env var_params H ikey key cache s of
           (Inl e, s1) \<Rightarrow> (Inl e, s1)
         | (Inr (energy, cache1), s1) \<Rightarrow>
             (case term_energies env var_params H rest cache1 s1 of
                (Inl e, s2) \<Rightarrow> (Inl e, s2)
              | (Inr (es, cache2), s2) \<Rightarrow> (Inr ((key, energy) # es, cache2), s2))))"

text \<open>
  Step 5 in the words of the specification, for one entry of each array: what a term
  with energy \<open>e\<close> does to the entry at \<open>ix\<close>. A one-body term adds its energy at
  \<open>rdm1[i, j]\<close>. A two-body term with indices \<open>(i, j, k, l)\<close> adds \<open>0.5 * e\<close> at both
  \<open>rdm2[l, i, k, j]\<close> and \<open>rdm2[i, l, j, k]\<close> when \<open>i \<noteq> l\<close> or \<open>j \<noteq> k\<close>, and otherwise the
  full energy once at \<open>rdm2[i, l, j, k]\<close>. An entry is what these additions make of 0,
  taken in the order of the terms.
\<close>

definition rdm1_add ::
  "('m, 'f, 'q, 't, 'a, 'c, 'b, 'o) collaborators \<Rightarrow> nat \<times> nat \<Rightarrow> real \<Rightarrow> term_key \<times> real
     \<Rightarrow> real" where
  "rdm1_add env ix acc ke =
     (if length (fst ke) = 2 \<and> ix = (orbital (fst ke ! 0), orbital (fst ke ! 1))
      then float64_add env acc (snd ke) else acc)"

definition rdm2_add ::
  "('m, 'f, 'q, 't, 'a, 'c, 'b, 'o) collaborators \<Rightarrow> nat \<times> nat \<times> nat \<times> nat \<Rightarrow> real
     \<Rightarrow> term_key \<times> real \<Rightarrow> real" where
  "rdm2_add env ix acc ke =
     (if length (fst ke) = 4 then
        let i = orbital (fst ke ! 0); j = orbital (fst ke ! 1);
            k = orbital (fst ke ! 2); l = orbital (fst ke ! 3) in
        if i \<noteq> l \<or> j \<noteq> k then
          if ix = (l, i, k, j) \<or> ix = (i, l, j, k)
          then float64_add env acc (float64_mul env 0.5 (snd ke)) else acc
        else
          if ix = (i, l, j, k) then float64_add env acc (snd ke) else acc
      else acc)"

definition rdm1_entry ::
  "('m, 'f, 'q, 't, 'a, 'c, 'b, 'o) collaborators \<Rightarrow> (term_key \<times> real) list \<Rightarrow> nat \<times> nat
     \<Rightarrow> real" where
  "rdm1_entry env es ix = foldl (rdm1_add env ix) 0 es"

definition rdm2_entry ::
  "('m, 'f, 'q, 't, 'a, 'c, 'b, 'o) collaborators \<Rightarrow> (term_key \<times> real) list
     \<Rightarrow> nat \<times> nat \<times> nat \<times> nat \<Rightarrow> real" where
  "rdm2_entry env es ix = foldl (rdm2_add env ix) 0 es"

subsection \<open>A solver as \<open>__init__\<close> leaves it, and a small instance\<close>

text \<open>The attributes after \<open>__init__\<close> with a molecule and otherwise the defaults;
  \<open>bo\<close> is the dictionary of backend options.\<close>

definition new_solver :: "'m \<Rightarrow> (string \<times> 'o) list \<Rightarrow> ('m, 'f, 'q, 'a, 'b, 'o) solver" where
  "new_solver m bo =
     \<lparr>molecule = m, mean_field = None, frozen_orbitals = [], qubit_mapping = ''jw'',
      ansatz = Builtin UCCSD, optimizer = Default_optimizer, initial_var_params = VP_None,
      backend_options = bo, up_then_down = False, verbose = False,
      optimal_energy = None, optimal_var_params = None,
      qemist_molecule = None, fermionic_hamiltonian = None, qubit_hamiltonian = None,
      backend = None\<rparr>"

text \<open>
  A small system on which the definitions can be run: a constant term, two one-body
  terms on the two spin orbitals of orbital \<open>0\<close> and two two-body terms. The mapping of the
  instance forgets the spin, so the two one-body terms have the same compressed operator.
  An ansatz object is its parameter vector, a simulator is the number of evaluations it
  has made.
\<close>

definition toy_H :: fermionic_op where
  "toy_H =
     [([], 7),
      ([(0, 1), (0, 0)], 5),
      ([(1, 1), (1, 0)], 5),
      ([(0, 1), (2, 1), (2, 0), (0, 0)], 3),
      ([(0, 1), (1, 1), (3, 0), (2, 0)], 2)]"

definition toy_mapping :: "fermionic_op \<Rightarrow> fermionic_op" where
  "toy_mapping H = map (\<lambda>(k, c). (map (\<lambda>ele. (orbital ele, snd ele)) k, c)) H"

definition toy_env ::
  "(unit, unit, fermionic_op, fermionic_op, real list, real list, nat, string) collaborators" where
  "toy_env =
     \<lparr>prepare_mf_RHF = (\<lambda>m. Inr ()),
      MolecularData = (\<lambda>m f fo.
         Inr \<lparr>n_qubits = 4, n_electrons = 2, molecular_hamiltonian = toy_H\<rparr>),
      fermion_to_qubit_mapping = (\<lambda>H m n e u. Inr (toy_mapping H)),
      count_qubits = (\<lambda>q. 4),
      compress = filter (\<lambda>kc. snd kc \<noteq> 0),
      terms = (\<lambda>q. q),
      new_UCCSD = (\<lambda>md m f u. Inr [0, 0]),
      new_RUCC = (\<lambda>n. Inr (replicate n 0)),
      set_var_params = (\<lambda>x v. case v of VP_values ps \<Rightarrow> (Inr ps, ps) | _ \<Rightarrow> (Inr x, x)),
      build_circuit = (\<lambda>x. (Inr (), x)),
      update_var_params = (\<lambda>x ps. (Inr (), ps)),
      circuit = (\<lambda>x. x),
      mf_mo_energy = (\<lambda>x. Inr [0, 0]),
      Simulator = (\<lambda>t n m. Inr 0),
      get_expectation_value = (\<lambda>b q c. (Inr (sum_list c + real (length q)), Suc b)),
      minimize = (\<lambda>v. case v of
         VP_values ps \<Rightarrow> Evaluate ps (\<lambda>e. Return \<lparr>res_x = ps, res_fun = e, res_nfev = 1\<rparr>)
       | _ \<Rightarrow> Raise (Collaborator ''minimize'')),
      float64_add = (\<lambda>x y. x + y),
      float64_mul = (\<lambda>x y. x * y)\<rparr>"

text \<open>The same collaborators with a simulator that raises.\<close>

definition failing_env ::
  "(unit, unit, fermionic_op, fermionic_op, real list, real list, nat, string) collaborators" where
  "failing_env =
     toy_env\<lparr>get_expectation_value := (\<lambda>b q c. (Inl (Collaborator ''backend''), b))\<rparr>"

definition toy_options :: "(string \<times> string) list" where
  "toy_options = [(''target'', ''qulacs''), (''n_shots'', ''None''), (''noise_model'', ''None'')]"

definition toy_new :: "(unit, unit, fermionic_op, real list, nat, string) solver" where
  "toy_new = new_solver () toy_options"

text \<open>The solver that \<open>build\<close> makes of \<open>toy_new\<close> with the collaborators \<open>toy_env\<close>.\<close>

definition toy_built :: "(unit, unit, fermionic_op, real list, nat, string) solver" where
  "toy_built =
     \<lparr>molecule = (), mean_field = Some (), frozen_orbitals = [], qubit_mapping = ''jw'',
      ansatz = Instance [0, 0], optimizer = Default_optimizer,
      initial_var_params = VP_values [0, 0],
      backend_options = toy_options, up_then_down = False, verbose = False,
      optimal_energy = None, optimal_var_params = None,
      qemist_molecule = Some \<lparr>n_qubits = 4, n_electrons = 2, molecular_hamiltonian = toy_H\<rparr>,
      fermionic_hamiltonian = Some toy_H,
      qubit_hamiltonian = Some (toy_mapping toy_H),
      backend = Some 0\<rparr>"

definition toy_reduced :: "(unit, unit, fermionic_op, real list, nat, string) solver" where
  "toy_reduced = toy_new\<lparr>ansatz := Builtin UCC1\<rparr>"

text \<open>Modelled from the spec: the mapping subsystem, which is not among the sources, fails
  with a configuration error on a mapping identifier that it does not recognize
  (section 4.1). The collaborators \<open>strict_env\<close> are \<open>toy_env\<close> with such a mapping, and
  \<open>toy_unmapped\<close> asks for \<open>UCC1\<close> with an identifier that is not recognized.\<close>

definition strict_env ::
  "(unit, unit, fermionic_op, fermionic_op, real list, real list, nat, string) collaborators" where
  "strict_env =
     toy_env\<lparr>fermion_to_qubit_mapping := (\<lambda>H m n e u.
        if m = ''jw'' \<or> m = ''bk'' \<or> m = ''scbk'' then Inr (toy_mapping H)
        else Inl (ValueError ''Invalid mapping selection.''))\<rparr>"

definition toy_unmapped :: "(unit, unit, fermionic_op, real list, nat, string) solver" where
  "toy_unmapped = toy_new\<lparr>ansatz := Builtin UCC1, qubit_mapping := ''foo'', up_then_down := True\<rparr>"

subsection \<open>Assumptions on collaborators\<close>



subsection \<open>Counting the evaluations of \<open>get_rdm\<close>\<close>

text \<open>The attributes that the mapping of a term reads; the estimator assigns none.\<close>

definition mapping_config ::
  "('m, 'f, 'q, 'a, 'b, 'o) solver \<Rightarrow> molecular_data option \<times> string \<times> bool" where
  "mapping_config s = (qemist_molecule s, qubit_mapping s, up_then_down s)"

text \<open>The compressed term structure that \<open>get_rdm\<close> computes for the key at position
  \<open>ikey\<close> (none for the empty key, or when the mapping raises), and the structures of a
  list of positions and keys.\<close>

definition term_structure ::
  "('m, 'f, 'q, 't, 'a, 'c, 'b, 'o) collaborators \<Rightarrow> fermionic_op
     \<Rightarrow> ('m, 'f, 'q, 'a, 'b, 'o) solver \<Rightarrow> nat \<Rightarrow> term_key \<Rightarrow> 't option" where
  "term_structure env H s ikey key =
     (if key = [] then None
      else (case term_operator env H ikey key s of
              Inl e \<Rightarrow> None
            | Inr q \<Rightarrow> Some (terms env q)))"

definition term_structures ::
  "('m, 'f, 'q, 't, 'a, 'c, 'b, 'o) collaborators \<Rightarrow> fermionic_op
     \<Rightarrow> ('m, 'f, 'q, 'a, 'b, 'o) solver \<Rightarrow> (nat \<times> term_key) list \<Rightarrow> 't list" where
  "term_structures env H s xs =
     List.map_filter (\<lambda>(ikey, key). term_structure env H s ikey key) xs"

text \<open>Instrumentation of the simulator: \<open>count\<close> reads from the simulator a number that
  every evaluation of an expectation value increases by one.\<close>

definition counts_evaluations ::
  "('m, 'f, 'q, 't, 'a, 'c, 'b, 'o) collaborators \<Rightarrow> ('b \<Rightarrow> nat) \<Rightarrow> bool" where
  "counts_evaluations env count =
     (\<forall>b q c. count (snd (get_expectation_value env b q c)) = Suc (count b))"

section \<open>Properties\<close>

subsection \<open>The energy estimator\<close>

text \<open>
  Claim C9. \<open>energy_estimation\<close> assigns no attribute of the solver other than through
  the ansatz object: whatever the call does, returning or raising, the solver it leaves
  has the same \<open>optimal_energy\<close>, \<open>optimal_var_params\<close>, \<open>initial_var_params\<close>,
  \<open>qubit_hamiltonian\<close> and \<open>fermionic_hamiltonian\<close> as the solver it was called on.
\<close>

theorem energy_estimation_frame:
  "optimal_energy (snd (energy_estimation env var_params s)) = optimal_energy s
   \<and> optimal_var_params (snd (energy_estimation env var_params s)) = optimal_var_params s
   \<and> initial_var_params (snd (energy_estimation env var_params s)) = initial_var_params s
   \<and> qubit_hamiltonian (snd (energy_estimation env var_params s)) = qubit_hamiltonian s
   \<and> fermionic_hamiltonian (snd (energy_estimation env var_params s)) = fermionic_hamiltonian s"
  by (simp add: energy_estimation_def Let_def
      split: ansatz_attr.split prod.split sum.split option.split)

text \<open>
  Claim C2, evaluated on a solver that \<open>__init__\<close> has just made (no \<open>build\<close>):
  \<open>simulate\<close> raises \<open>AttributeError\<close> when its guard reads \<open>self.backend\<close>, an attribute
  that only \<open>build\<close> assigns, and \<open>energy_estimation\<close>, which has no guard, raises
  \<open>AttributeError\<close> on the member of the enumeration that \<open>self.ansatz\<close> still holds.
  Neither is the \<open>RuntimeError\<close> that tells the caller to build first.
\<close>

theorem unbuilt_solver_attribute_error:
  "simulate env (new_solver m bo) = (Inl (AttributeError ''backend''), new_solver m bo)
   \<and> energy_estimation env var_params (new_solver m bo)
       = (Inl (AttributeError ''update_var_params''), new_solver m bo)
   \<and> \<not> is_RuntimeError (AttributeError ''backend'')
   \<and> \<not> is_RuntimeError (AttributeError ''update_var_params'')"
  by (simp add: simulate_def energy_estimation_def new_solver_def)

subsection \<open>The default optimiser\<close>

text \<open>
  Claim C10. When \<open>simulate\<close> returns with the default optimiser, the scalar it returns
  is the \<open>optimal_energy\<close> it has recorded, and \<open>optimal_var_params\<close> is the solution
  vector of the very minimisation that produced this scalar. Both fields are assigned
  whatever they held before, so every later call overwrites them.
\<close>

theorem simulate_default_records_optimum:
  assumes "optimizer s = Default_optimizer" and "simulate env s = (Inr energy, s')"
  shows "optimal_energy s' = Some energy
     \<and> (\<exists>result s1.
          run_strategy (minimize env (initial_var_params s)) (energy_estimation env) s
            = (Inr result, s1)
          \<and> energy = res_fun result \<and> optimal_var_params s' = Some (res_x result))"
  using assms
  by (auto simp: simulate_def default_optimizer_def
      split: if_splits option.splits prod.splits sum.splits)

theorem simulate_default_records_optimum_witness:
  "optimizer toy_built = Default_optimizer
   \<and> fst (simulate toy_env toy_built) = Inr 5
   \<and> optimal_energy (snd (simulate toy_env toy_built)) = Some 5
   \<and> optimal_var_params (snd (simulate toy_env toy_built)) = Some [0, 0]"
proof -
  have h1: "optimizer toy_built = Default_optimizer"
    by (simp add: toy_built_def)
  have h2: "simulate toy_env toy_built =
      (Inr 5, toy_built\<lparr>ansatz := Instance [0, 0], backend := Some 1,
                        optimal_var_params := Some [0, 0], optimal_energy := Some 5\<rparr>)"
    by (simp add: simulate_def default_optimizer_def energy_estimation_def toy_built_def
        toy_env_def toy_mapping_def toy_H_def)
  from simulate_default_records_optimum [OF h1 h2] h1 h2 show ?thesis
    by simp
qed



subsection \<open>Construction\<close>

lemma keys_update: "k \<in> fst ` set d \<Longrightarrow> fst ` set (AList.update k v d) = fst ` set d"
  by (induction d) auto

lemma recognized_keys: "fst ` set (default_options :: 'x attrs) = set recognized"
  by (simp add: default_options_def recognized_def)

text \<open>The loop stops at the first key that the instance dictionary does not have.\<close>

lemma init_loop_unknown:
  "find (\<lambda>k. k \<notin> fst ` set d) (map fst opt_dict) = Some k
     \<Longrightarrow> init_loop opt_dict d = Inl (KeyError (keyword_message k))"
proof (induction opt_dict arbitrary: d)
  case Nil
  then show ?case by simp
next
  case (Cons kv kvs)
  obtain k' v where kv: "kv = (k', v)" by (cases kv)
  show ?case
  proof (cases "k' \<in> fst ` set d")
    case True
    with Cons.prems kv
    have "find (\<lambda>k. k \<notin> fst ` set (AList.update k' v d)) (map fst kvs) = Some k"
      by (simp add: keys_update)
    from Cons.IH [OF this] True kv show ?thesis by simp
  next
    case False
    with Cons.prems kv show ?thesis by simp
  qed
qed

text \<open>When every key is known the loop ends, and an attribute then holds the value of
  its last entry in the options, or else its default.\<close>

lemma init_loop_known:
  "set (map fst opt_dict) \<subseteq> fst ` set d \<Longrightarrow>
     \<exists>d'. init_loop opt_dict d = Inr d' \<and> fst ` set d' = fst ` set d
        \<and> (\<forall>k. map_of d' k =
              (case map_of (rev opt_dict) k of None \<Rightarrow> map_of d k | Some v \<Rightarrow> Some v))"
proof (induction opt_dict arbitrary: d)
  case Nil
  then show ?case by simp
next
  case (Cons kv kvs)
  obtain k' v where kv: "kv = (k', v)" by (cases kv)
  with Cons.prems have in_d: "k' \<in> fst ` set d" by simp
  from Cons.prems have rest: "set (map fst kvs) \<subseteq> fst ` set (AList.update k' v d)"
    by (simp add: keys_update [OF in_d])
  from Cons.IH [OF rest] obtain d' where
    d': "init_loop kvs (AList.update k' v d) = Inr d'"
      "fst ` set d' = fst ` set (AList.update k' v d)"
      "\<forall>k. map_of d' k =
         (case map_of (rev kvs) k of None \<Rightarrow> map_of (AList.update k' v d) k | Some v \<Rightarrow> Some v)"
    by blast
  have "map_of d' k =
      (case map_of (rev (kv # kvs)) k of None \<Rightarrow> map_of d k | Some v \<Rightarrow> Some v)" for k
  proof -
    have "map_of d' k =
        (case map_of (rev kvs) k of None \<Rightarrow> map_of (AList.update k' v d) k | Some v \<Rightarrow> Some v)"
      using d'(3) by blast
    then show ?thesis
      by (simp add: kv map_add_def update_conv' split: option.splits)
  qed
  with d' in_d kv show ?case by (simp add: keys_update [OF in_d])
qed

text \<open>
  Claim C7, as the code has it. An options dictionary with a key outside the recognized
  configuration surface fails with the \<open>KeyError\<close> that names the first such key. An
  options dictionary whose keys are all recognized and that holds no true molecule fails
  with the \<open>ValueError\<close> that asks for a molecule. (The keys are looked at first: a
  dictionary with an unrecognized key never reaches the test of the molecule.)
\<close>

theorem init_rejects:
  "(find (\<lambda>k. k \<notin> set recognized) (map fst opt_dict) = Some k
      \<longrightarrow> init opt_dict = Inl (KeyError (keyword_message k)))
   \<and> (set (map fst opt_dict) \<subseteq> set recognized
        \<and> (\<forall>v. (''molecule'', v) \<in> set opt_dict \<longrightarrow> \<not> truthy v)
      \<longrightarrow> init opt_dict = Inl (ValueError molecule_message))"
proof (intro conjI impI)
  assume "find (\<lambda>k. k \<notin> set recognized) (map fst opt_dict) = Some k"
  then have "find (\<lambda>k. k \<notin> fst ` set (default_options :: 'a attrs)) (map fst opt_dict) = Some k"
    by (simp only: recognized_keys)
  from init_loop_unknown [OF this] show "init opt_dict = Inl (KeyError (keyword_message k))"
    by (simp add: init_def)
next
  assume a: "set (map fst opt_dict) \<subseteq> set recognized
      \<and> (\<forall>v. (''molecule'', v) \<in> set opt_dict \<longrightarrow> \<not> truthy v)"
  then have "set (map fst opt_dict) \<subseteq> fst ` set (default_options :: 'a attrs)"
    by (simp only: recognized_keys)
  from init_loop_known [OF this] obtain d' where
    d': "init_loop opt_dict default_options = Inr d'"
      "\<forall>k. map_of d' k =
         (case map_of (rev opt_dict) k of
            None \<Rightarrow> map_of (default_options :: 'a attrs) k | Some v \<Rightarrow> Some v)"
    by blast
  have "\<exists>m. map_of d' ''molecule'' = Some m \<and> \<not> truthy m"
  proof (cases "map_of (rev opt_dict) ''molecule''")
    case None
    have "map_of (default_options :: 'a attrs) ''molecule'' = Some PyNone"
      by (simp add: default_options_def)
    with None d'(2) have "map_of d' ''molecule'' = Some PyNone" by simp
    then show ?thesis by simp
  next
    case (Some v)
    then have "(''molecule'', v) \<in> set (rev opt_dict)" by (rule map_of_SomeD)
    then have "(''molecule'', v) \<in> set opt_dict" by simp
    with a have "\<not> truthy v" by blast
    with Some d'(2) show ?thesis by simp
  qed
  with d'(1) show "init opt_dict = Inl (ValueError molecule_message)"
    by (auto simp: init_def)
qed

theorem init_rejects_witness:
  "find (\<lambda>k. k \<notin> set recognized)
       (map fst [(''verbose'', PyBool True), (''shots'', PyInt 1 :: unit pyval)]) = Some ''shots''
   \<and> init [(''verbose'', PyBool True), (''shots'', PyInt 1 :: unit pyval)]
       = Inl (KeyError (keyword_message ''shots''))
   \<and> set (map fst [(''verbose'', PyBool True), (''molecule'', PyNone :: unit pyval)])
       \<subseteq> set recognized
   \<and> filter (\<lambda>kv. fst kv = ''molecule'' \<and> truthy (snd kv))
        [(''verbose'', PyBool True), (''molecule'', PyNone :: unit pyval)] = []
   \<and> init [(''verbose'', PyBool True), (''molecule'', PyNone :: unit pyval)]
       = Inl (ValueError molecule_message)"
proof -
  have h1: "find (\<lambda>k. k \<notin> set recognized)
       (map fst [(''verbose'', PyBool True), (''shots'', PyInt 1 :: unit pyval)]) = Some ''shots''"
    by (simp add: recognized_def)
  have h2: "set (map fst [(''verbose'', PyBool True), (''molecule'', PyNone :: unit pyval)])
       \<subseteq> set recognized
     \<and> (\<forall>v. (''molecule'', v) \<in> set [(''verbose'', PyBool True), (''molecule'', PyNone :: unit pyval)]
          \<longrightarrow> \<not> truthy v)"
    by (simp add: recognized_def)
  have h3: "filter (\<lambda>kv. fst kv = ''molecule'' \<and> truthy (snd kv))
        [(''verbose'', PyBool True), (''molecule'', PyNone :: unit pyval)] = []"
    by simp
  from init_rejects [of "[(''verbose'', PyBool True), (''shots'', PyInt 1 :: unit pyval)]" "''shots''"] h1
  have r1: "init [(''verbose'', PyBool True), (''shots'', PyInt 1 :: unit pyval)]
      = Inl (KeyError (keyword_message ''shots''))"
    by blast
  from init_rejects [of "[(''verbose'', PyBool True), (''molecule'', PyNone :: unit pyval)]"] h2
  have r2: "init [(''verbose'', PyBool True), (''molecule'', PyNone :: unit pyval)]
      = Inl (ValueError molecule_message)"
    by blast
  from h1 h2 h3 r1 r2 show ?thesis by blast
qed

text \<open>The claim as it is worded fails on a dictionary that lacks a molecule and has an
  unrecognized key: the error names the key and says nothing of the molecule.\<close>

theorem init_unknown_key_precedes_molecule:
  "map_of [(''nonexistent_option'', PyInt 1 :: unit pyval)] ''molecule'' = None
   \<and> init [(''nonexistent_option'', PyInt 1 :: unit pyval)]
       = Inl (KeyError (keyword_message ''nonexistent_option''))
   \<and> init [(''nonexistent_option'', PyInt 1 :: unit pyval)] \<noteq> Inl (ValueError molecule_message)"
  by (simp add: init_def default_options_def)

subsection \<open>The reduced ansatze in \<open>build\<close>\<close>

lemma build_hamiltonian_keeps:
  "ansatz (snd (build_hamiltonian env s)) = ansatz s
   \<and> qubit_mapping (snd (build_hamiltonian env s)) = qubit_mapping s
   \<and> up_then_down (snd (build_hamiltonian env s)) = up_then_down s"
  by (simp add: build_hamiltonian_def Let_def split: sum.split option.split)

text \<open>
  Claim C3, as the code has it. Let the ansatz be \<open>UCC1\<close> or \<open>UCC3\<close> and let one of the
  three preconditions be violated: the mapping is not \<open>jw\<close>, \<open>up_then_down\<close> is false, or
  the mapped qubit Hamiltonian does not act on 4 qubits. Then \<open>build\<close> fails and the
  attribute \<open>ansatz\<close> still holds the member of the enumeration: no ansatz object was
  made, no circuit built. When the calls of lines 82 to 93 that make the Hamiltonians
  have returned, the error is the \<open>ValueError\<close> whose text names the ansatz and the first
  violated constraint. (The checks come after these calls, since the third needs the qubit
  Hamiltonian; an exception of the mean field, the molecular data or the mapping reaches
  the caller first.)
\<close>

theorem build_rejects_reduced_ansatz:
  assumes "ansatz s = Builtin a" and "a = UCC1 \<or> a = UCC3"
    and "qubit_mapping s \<noteq> ''jw'' \<or> \<not> up_then_down s
         \<or> (\<forall>s1 q. build_hamiltonian env s = (Inr (), s1) \<longrightarrow> qubit_hamiltonian s1 = Some q
               \<longrightarrow> count_qubits env q \<noteq> 4)"
  shows "\<exists>e s'. build env s = (Inl e, s') \<and> ansatz s' = Builtin a
     \<and> (\<forall>s1. build_hamiltonian env s = (Inr (), s1) \<longrightarrow>
           s' = s1 \<and> e = ValueError
             (if qubit_mapping s \<noteq> ''jw'' then mapping_message a
              else if \<not> up_then_down s then ordering_message a
              else homo_lumo_message a))"
proof -
  obtain r s1 where bh: "build_hamiltonian env s = (r, s1)"
    by (cases "build_hamiltonian env s")
  from build_hamiltonian_keeps [of env s] bh assms(1)
  have fr: "ansatz s1 = Builtin a" "qubit_mapping s1 = qubit_mapping s"
      "up_then_down s1 = up_then_down s"
    by simp_all
  show ?thesis
  proof (cases r)
    case (Inl e)
    with bh fr show ?thesis by (simp add: build_def)
  next
    case (Inr u)
    with bh have bh': "build_hamiltonian env s = (Inr (), s1)" by simp
    then obtain q where q: "qubit_hamiltonian s1 = Some q"
      by (auto simp: build_hamiltonian_def Let_def split: sum.splits option.splits)
    from assms(3) bh' q
    have v: "qubit_mapping s \<noteq> ''jw'' \<or> \<not> up_then_down s \<or> count_qubits env q \<noteq> 4"
      by blast
    have "check_reduced env s1 = Inl (ValueError
             (if qubit_mapping s \<noteq> ''jw'' then mapping_message a
              else if \<not> up_then_down s then ordering_message a
              else homo_lumo_message a))"
      using fr q v assms(2) by (auto simp: check_reduced_def)
    with bh' fr show ?thesis by (simp add: build_def)
  qed
qed

theorem build_rejects_reduced_ansatz_witness:
  "ansatz toy_reduced = Builtin UCC1 \<and> \<not> up_then_down toy_reduced
   \<and> (\<exists>s1. build_hamiltonian toy_env toy_reduced = (Inr (), s1))
   \<and> fst (build toy_env toy_reduced) = Inl (ValueError (ordering_message UCC1))
   \<and> ansatz (snd (build toy_env toy_reduced)) = Builtin UCC1"
proof -
  have h1: "ansatz toy_reduced = Builtin UCC1"
    by (simp add: toy_reduced_def)
  have h2: "\<not> up_then_down toy_reduced"
    by (simp add: toy_reduced_def toy_new_def new_solver_def)
  have h3: "qubit_mapping toy_reduced = ''jw''"
    by (simp add: toy_reduced_def toy_new_def new_solver_def)
  have h4: "\<exists>s1. build_hamiltonian toy_env toy_reduced = (Inr (), s1)"
    by (simp add: build_hamiltonian_def toy_env_def toy_reduced_def toy_new_def new_solver_def)
  from build_rejects_reduced_ansatz [of toy_reduced UCC1 toy_env] h1 h2 h3 h4 show ?thesis
    by auto
qed

text \<open>The claim as it is worded fails for a mapping identifier that the mapping subsystem
  itself rejects: \<open>build\<close> calls the mapping at line 89, before the check of line 98, and
  the error is the one of the mapping, which names neither the ansatz nor the
  constraint.\<close>

theorem build_unrecognized_mapping_first:
  "ansatz toy_unmapped = Builtin UCC1
   \<and> qubit_mapping toy_unmapped \<noteq> ''jw''
   \<and> fst (build strict_env toy_unmapped) = Inl (ValueError ''Invalid mapping selection.'')
   \<and> fst (build strict_env toy_unmapped) \<noteq> Inl (ValueError (mapping_message UCC1))
   \<and> ansatz (snd (build strict_env toy_unmapped)) = Builtin UCC1"
  by (simp add: build_def build_hamiltonian_def strict_env_def toy_env_def toy_unmapped_def
      toy_new_def new_solver_def mapping_message_def)

subsection \<open>The reduced density matrices\<close>

lemmas toy_run = get_rdm_def toy_built_def toy_env_def toy_H_def toy_mapping_def
  initial_locals_def get_rdm_step_def term_energy_def term_operator_def select_term_def
  energy_estimation_def accumulate_def orbital_def enumerate_eq_zip upt_rec Let_def

text \<open>A call of \<open>get_rdm\<close> that returns leaves the active qubit Hamiltonian as it
  was before the call: lines 183 and 238 save it and put it back.\<close>

lemma get_rdm_restores_on_return:
  "fst (get_rdm env var_params s) = Inr rdms
     \<Longrightarrow> qubit_hamiltonian (snd (get_rdm env var_params s)) = qubit_hamiltonian s"
  by (auto simp: get_rdm_def split: option.splits ansatz_attr.splits sum.splits prod.splits)

text \<open>
  Claim C1, evaluated on a built solver whose simulator raises during the evaluation of
  the first one-body term: the exception leaves \<open>get_rdm\<close> at line 223, after line 222 has
  made the operator of that term the active Hamiltonian, and the assignment of line 238
  that restores the saved one is never reached. The solver is left with the operator of
  the term, which is not the Hamiltonian it had before the call.
\<close>

theorem get_rdm_not_restored_on_exception:
  "fst (get_rdm failing_env [1, 2] toy_built) = Inl (Collaborator ''backend'')
   \<and> qubit_hamiltonian (snd (get_rdm failing_env [1, 2] toy_built))
       = Some [([(0, 1), (0, 0)], 1)]
   \<and> qubit_hamiltonian toy_built \<noteq> Some [([(0, 1), (0, 0)], 1)]"
  by (simp add: failing_env_def toy_run)

text \<open>For any position and any Hamiltonian: the derived Hamiltonian has the keys of the
  original one, and the coefficient of a term is 1 when the term is the current one and
  the position is not 0, and is 0 otherwise.\<close>

lemma select_term_keys: "map fst (select_term ikey key H) = map fst H"
  by (induction H) (auto simp: select_term_def)

lemma select_term_values:
  "(key2, c) \<in> set (select_term ikey key H)
     \<Longrightarrow> c = (if key2 = key \<and> ikey \<noteq> 0 then 1 else 0)"
  by (auto simp: select_term_def)

lemma select_term_current:
  "(key, c) \<in> set H \<Longrightarrow> (key, if ikey \<noteq> 0 then 1 else 0) \<in> set (select_term ikey key H)"
  by (force simp: select_term_def)

text \<open>
  Claim C4. The Hamiltonian that \<open>get_rdm\<close> iterates starts with its constant term, the
  empty key (the docstring of \<open>get_rdm\<close> says so). Then, for every non-empty key at any
  position of the iteration, the Hamiltonian \<open>D\<close> that \<open>get_rdm\<close> derives and hands to
  the mapping has the keys of the original one, coefficient 1 on the current term and
  coefficient 0 on every other term, whatever the original coefficients were.
\<close>

theorem select_term_coefficients:
  assumes "H = ([], c0) # rest"
    and "(ikey, key) \<in> set (List.enumerate 0 (map fst H))" and "key \<noteq> []"
  shows "\<exists>D. (\<forall>md. qemist_molecule s = Some md \<longrightarrow>
            term_operator env H ikey key s =
              (case fermion_to_qubit_mapping env D (qubit_mapping s) (n_qubits md)
                      (n_electrons md) (up_then_down s) of
                 Inl e \<Rightarrow> Inl e
               | Inr q \<Rightarrow> Inr (compress env q)))
    \<and> map fst D = map fst H
    \<and> (\<forall>(key2, c) \<in> set D. c = (if key2 = key then 1 else 0))
    \<and> (key, 1) \<in> set D"
proof -
  from assms(2) have nth: "ikey < length H" "key = fst (H ! ikey)"
    by (auto simp: in_set_enumerate_eq)
  have pos: "ikey \<noteq> 0"
  proof
    assume "ikey = 0"
    with nth(2) assms(1) have "key = []" by simp
    with assms(3) show False by simp
  qed
  from nth have "(key, snd (H ! ikey)) \<in> set H"
    by (metis nth_mem prod.collapse)
  from select_term_current [OF this, of ikey] pos
  have cur: "(key, 1) \<in> set (select_term ikey key H)" by simp
  have vals: "\<forall>(key2, c) \<in> set (select_term ikey key H). c = (if key2 = key then 1 else 0)"
    using pos by (auto dest: select_term_values)
  have op: "\<forall>md. qemist_molecule s = Some md \<longrightarrow>
            term_operator env H ikey key s =
              (case fermion_to_qubit_mapping env (select_term ikey key H) (qubit_mapping s)
                      (n_qubits md) (n_electrons md) (up_then_down s) of
                 Inl e \<Rightarrow> Inl e
               | Inr q \<Rightarrow> Inr (compress env q))"
    by (simp add: term_operator_def)
  from op select_term_keys [of ikey key H] vals cur show ?thesis by blast
qed

theorem select_term_coefficients_witness:
  "(1, [(0, 1), (0, 0)]) \<in> set (List.enumerate 0 (map fst toy_H))
   \<and> select_term 1 [(0, 1), (0, 0)] toy_H =
       [([], 0), ([(0, 1), (0, 0)], 1), ([(1, 1), (1, 0)], 0),
        ([(0, 1), (2, 1), (2, 0), (0, 0)], 0),
        ([(0, 1), (1, 1), (3, 0), (2, 0)], 0)]
   \<and> term_operator toy_env toy_H 1 [(0, 1), (0, 0)] toy_built = Inr [([(0, 1), (0, 0)], 1)]
   \<and> (\<exists>D. term_operator toy_env toy_H 1 [(0, 1), (0, 0)] toy_built
              = Inr (compress toy_env (toy_mapping D))
          \<and> map fst D = map fst toy_H \<and> ([(0, 1), (0, 0)], 1) \<in> set D)"
proof -
  have h0: "toy_H = ([], 7) # tl toy_H"
    by (simp add: toy_H_def)
  have h1: "(1, [(0, 1), (0, 0)]) \<in> set (List.enumerate 0 (map fst toy_H))"
    by (simp add: toy_H_def enumerate_eq_zip upt_rec)
  have h2: "[(0 :: nat, 1 :: nat), (0, 0)] \<noteq> []" by simp
  have h3: "select_term 1 [(0, 1), (0, 0)] toy_H =
       [([], 0), ([(0, 1), (0, 0)], 1), ([(1, 1), (1, 0)], 0),
        ([(0, 1), (2, 1), (2, 0), (0, 0)], 0),
        ([(0, 1), (1, 1), (3, 0), (2, 0)], 0)]"
    by (simp add: select_term_def toy_H_def)
  have h4: "term_operator toy_env toy_H 1 [(0, 1), (0, 0)] toy_built
      = Inr [([(0, 1), (0, 0)], 1)]"
    by (simp add: term_operator_def select_term_def toy_built_def toy_env_def toy_H_def
        toy_mapping_def orbital_def)
  have h5: "qemist_molecule toy_built
      = Some \<lparr>n_qubits = 4, n_electrons = 2, molecular_hamiltonian = toy_H\<rparr>"
    by (simp add: toy_built_def)
  from select_term_coefficients [OF h0 h1 h2, of toy_built toy_env] obtain D where
    d: "\<forall>md. qemist_molecule toy_built = Some md \<longrightarrow>
            term_operator toy_env toy_H 1 [(0, 1), (0, 0)] toy_built =
              (case fermion_to_qubit_mapping toy_env D (qubit_mapping toy_built) (n_qubits md)
                      (n_electrons md) (up_then_down toy_built) of
                 Inl e \<Rightarrow> Inl e
               | Inr q \<Rightarrow> Inr (compress toy_env q))"
      "map fst D = map fst toy_H" "([(0, 1), (0, 0)], 1) \<in> set D"
    by blast
  have f: "fermion_to_qubit_mapping toy_env D m n e u = Inr (toy_mapping D)" for m n e u
    by (simp add: toy_env_def)
  from d(1) h5 have "term_operator toy_env toy_H 1 [(0, 1), (0, 0)] toy_built
      = Inr (compress toy_env (toy_mapping D))"
    by (simp add: f)
  with d(2,3) h1 h3 h4 show ?thesis by blast
qed

subsection \<open>The update of the arrays\<close>

text \<open>What \<open>accumulate\<close> does in each of its branches, and what it does to one entry of each
  array.\<close>

lemma rdm1_add_simps:
  "length key = 2 \<Longrightarrow> rdm1_add env ix acc (key, e)
     = (if ix = (orbital (key ! 0), orbital (key ! 1)) then float64_add env acc e else acc)"
  "length key \<noteq> 2 \<Longrightarrow> rdm1_add env ix acc (key, e) = acc"
  by (simp_all add: rdm1_add_def)

lemma rdm2_add_simps:
  "length key = 4 \<Longrightarrow> orbital (key ! 0) \<noteq> orbital (key ! 3) \<or> orbital (key ! 1) \<noteq> orbital (key ! 2)
     \<Longrightarrow> rdm2_add env ix acc (key, e)
     = (if ix = (orbital (key ! 3), orbital (key ! 0), orbital (key ! 2), orbital (key ! 1))
           \<or> ix = (orbital (key ! 0), orbital (key ! 3), orbital (key ! 1), orbital (key ! 2))
        then float64_add env acc (float64_mul env 0.5 e) else acc)"
  "length key = 4 \<Longrightarrow> \<not> (orbital (key ! 0) \<noteq> orbital (key ! 3) \<or> orbital (key ! 1) \<noteq> orbital (key ! 2))
     \<Longrightarrow> rdm2_add env ix acc (key, e)
     = (if ix = (orbital (key ! 0), orbital (key ! 3), orbital (key ! 1), orbital (key ! 2))
        then float64_add env acc e else acc)"
  "length key \<noteq> 4 \<Longrightarrow> rdm2_add env ix acc (key, e) = acc"
  unfolding rdm2_add_def Let_def fst_conv snd_conv
  by (simp_all only: if_True if_False simp_thms)

lemma accumulate_one_body:
  assumes "length key = 2"
  shows "accumulate env n key e r1 r2 =
     (if orbital (key ! 0) < n \<and> orbital (key ! 1) < n
      then Inr (r1((orbital (key ! 0), orbital (key ! 1)) :=
                  float64_add env (r1 (orbital (key ! 0), orbital (key ! 1))) e), r2)
      else Inl IndexError)"
  unfolding accumulate_def Let_def using assms by (simp only: if_True simp_thms)

lemma accumulate_two_body:
  assumes "length key = 4"
  shows "accumulate env n key e r1 r2 =
     (if orbital (key ! 0) < n \<and> orbital (key ! 1) < n \<and> orbital (key ! 2) < n
          \<and> orbital (key ! 3) < n then
        if orbital (key ! 0) \<noteq> orbital (key ! 3) \<or> orbital (key ! 1) \<noteq> orbital (key ! 2) then
          Inr (r1, (r2((orbital (key ! 3), orbital (key ! 0), orbital (key ! 2), orbital (key ! 1)) :=
                 float64_add env
                   (r2 (orbital (key ! 3), orbital (key ! 0), orbital (key ! 2), orbital (key ! 1)))
                   (float64_mul env 0.5 e)))
               ((orbital (key ! 0), orbital (key ! 3), orbital (key ! 1), orbital (key ! 2)) :=
                 float64_add env
                   ((r2((orbital (key ! 3), orbital (key ! 0), orbital (key ! 2), orbital (key ! 1)) :=
                      float64_add env
                        (r2 (orbital (key ! 3), orbital (key ! 0), orbital (key ! 2), orbital (key ! 1)))
                        (float64_mul env 0.5 e)))
                      (orbital (key ! 0), orbital (key ! 3), orbital (key ! 1), orbital (key ! 2)))
                   (float64_mul env 0.5 e)))
        else
          Inr (r1, r2((orbital (key ! 0), orbital (key ! 3), orbital (key ! 1), orbital (key ! 2)) :=
                 float64_add env
                   (r2 (orbital (key ! 0), orbital (key ! 3), orbital (key ! 1), orbital (key ! 2))) e))
      else Inl IndexError)"
proof -
  have "length key \<noteq> 2" using assms by simp
  then show ?thesis
    unfolding accumulate_def Let_def using assms by (simp only: if_True if_False simp_thms)
qed

lemma accumulate_other:
  "length key \<noteq> 2 \<Longrightarrow> length key \<noteq> 4 \<Longrightarrow> accumulate env n key e r1 r2 = Inr (r1, r2)"
  unfolding accumulate_def by (simp only: if_False)

lemma upd_two:
  "a \<noteq> b \<Longrightarrow> ((r(a := f (r a)))(b := f ((r(a := f (r a))) b))) ix
     = (if ix = a \<or> ix = b then f (r ix) else r ix)"
  by auto



lemma accumulate_one_in:
  assumes "length key = 2" and "orbital (key ! 0) < n \<and> orbital (key ! 1) < n"
  shows "accumulate env n key e r1 r2 =
     Inr (r1((orbital (key ! 0), orbital (key ! 1)) :=
            float64_add env (r1 (orbital (key ! 0), orbital (key ! 1))) e), r2)"
  by (subst accumulate_one_body [OF assms(1)], subst if_P [OF assms(2)], rule refl)

lemma accumulate_one_out:
  assumes "length key = 2" and "\<not> (orbital (key ! 0) < n \<and> orbital (key ! 1) < n)"
  shows "accumulate env n key e r1 r2 = Inl IndexError"
  by (subst accumulate_one_body [OF assms(1)], subst if_not_P [OF assms(2)], rule refl)

lemma accumulate_two_split:
  assumes "length key = 4"
    and "orbital (key ! 0) < n \<and> orbital (key ! 1) < n \<and> orbital (key ! 2) < n
          \<and> orbital (key ! 3) < n"
    and "orbital (key ! 0) \<noteq> orbital (key ! 3) \<or> orbital (key ! 1) \<noteq> orbital (key ! 2)"
  shows "accumulate env n key e r1 r2 =
     Inr (r1, (r2((orbital (key ! 3), orbital (key ! 0), orbital (key ! 2), orbital (key ! 1)) :=
                 float64_add env
                   (r2 (orbital (key ! 3), orbital (key ! 0), orbital (key ! 2), orbital (key ! 1)))
                   (float64_mul env 0.5 e)))
               ((orbital (key ! 0), orbital (key ! 3), orbital (key ! 1), orbital (key ! 2)) :=
                 float64_add env
                   ((r2((orbital (key ! 3), orbital (key ! 0), orbital (key ! 2), orbital (key ! 1)) :=
                      float64_add env
                        (r2 (orbital (key ! 3), orbital (key ! 0), orbital (key ! 2), orbital (key ! 1)))
                        (float64_mul env 0.5 e)))
                      (orbital (key ! 0), orbital (key ! 3), orbital (key ! 1), orbital (key ! 2)))
                   (float64_mul env 0.5 e)))"
  by (subst accumulate_two_body [OF assms(1)], subst if_P [OF assms(2)],
      subst if_P [OF assms(3)], rule refl)

lemma accumulate_two_full:
  assumes "length key = 4"
    and "orbital (key ! 0) < n \<and> orbital (key ! 1) < n \<and> orbital (key ! 2) < n
          \<and> orbital (key ! 3) < n"
    and "\<not> (orbital (key ! 0) \<noteq> orbital (key ! 3) \<or> orbital (key ! 1) \<noteq> orbital (key ! 2))"
  shows "accumulate env n key e r1 r2 =
     Inr (r1, r2((orbital (key ! 0), orbital (key ! 3), orbital (key ! 1), orbital (key ! 2)) :=
                 float64_add env
                   (r2 (orbital (key ! 0), orbital (key ! 3), orbital (key ! 1), orbital (key ! 2))) e))"
  by (subst accumulate_two_body [OF assms(1)], subst if_P [OF assms(2)],
      subst if_not_P [OF assms(3)], rule refl)

lemma accumulate_two_out:
  assumes "length key = 4"
    and "\<not> (orbital (key ! 0) < n \<and> orbital (key ! 1) < n \<and> orbital (key ! 2) < n
          \<and> orbital (key ! 3) < n)"
  shows "accumulate env n key e r1 r2 = Inl IndexError"
  by (subst accumulate_two_body [OF assms(1)], subst if_not_P [OF assms(2)], rule refl)

lemma upd_one: "(r(a := f (r a))) ix = (if ix = a then f (r ix) else r ix)"
  by simp

lemma accumulate_entries:
  assumes "accumulate env n key e r1 r2 = Inr (r1', r2')"
  shows "r1' ix = rdm1_add env ix (r1 ix) (key, e)"
    and "r2' ix2 = rdm2_add env ix2 (r2 ix2) (key, e)"
proof -
  let ?i = "orbital (key ! 0)" and ?j = "orbital (key ! 1)"
  let ?k = "orbital (key ! 2)" and ?l = "orbital (key ! 3)"
  let ?h = "float64_mul env 0.5 e"
  have "r1' ix = rdm1_add env ix (r1 ix) (key, e) \<and> r2' ix2 = rdm2_add env ix2 (r2 ix2) (key, e)"
  proof (cases "length key = 2")
    case True
    then have n4: "length key \<noteq> 4" by simp
    have bounds: "?i < n \<and> ?j < n"
    proof (rule ccontr)
      assume "\<not> (?i < n \<and> ?j < n)"
      from accumulate_one_out [OF True this, of env e r1 r2] assms show False by simp
    qed
    from accumulate_one_in [OF True bounds, of env e r1 r2] assms
    have eq: "r1' = r1((?i, ?j) := float64_add env (r1 (?i, ?j)) e)" "r2' = r2"
      by simp_all
    have "r1' ix = (if ix = (?i, ?j) then float64_add env (r1 ix) e else r1 ix)"
      unfolding eq(1) by (rule upd_one)
    then show ?thesis
      unfolding rdm1_add_simps(1) [OF True] rdm2_add_simps(3) [OF n4] eq(2) by blast
  next
    case False
    show ?thesis
    proof (cases "length key = 4")
      case True
      have bounds: "?i < n \<and> ?j < n \<and> ?k < n \<and> ?l < n"
      proof (rule ccontr)
        assume "\<not> (?i < n \<and> ?j < n \<and> ?k < n \<and> ?l < n)"
        from accumulate_two_out [OF True this, of env e r1 r2] assms show False by simp
      qed
      show ?thesis
      proof (cases "?i \<noteq> ?l \<or> ?j \<noteq> ?k")
        case c: True
        then have d: "(?l, ?i, ?k, ?j) \<noteq> (?i, ?l, ?j, ?k)" by auto
        have "(Inr (r1', r2') :: error + rdm1_array \<times> rdm2_array) = Inr (r1, (r2((?l, ?i, ?k, ?j) := float64_add env (r2 (?l, ?i, ?k, ?j)) ?h))
                   ((?i, ?l, ?j, ?k) := float64_add env
                      ((r2((?l, ?i, ?k, ?j) := float64_add env (r2 (?l, ?i, ?k, ?j)) ?h))
                         (?i, ?l, ?j, ?k)) ?h))"
          by (rule trans [OF sym [OF assms] accumulate_two_split [OF True bounds c]])
        then have eq: "r1' = r1"
          "r2' = (r2((?l, ?i, ?k, ?j) := float64_add env (r2 (?l, ?i, ?k, ?j)) ?h))
                   ((?i, ?l, ?j, ?k) := float64_add env
                      ((r2((?l, ?i, ?k, ?j) := float64_add env (r2 (?l, ?i, ?k, ?j)) ?h))
                         (?i, ?l, ?j, ?k)) ?h)"
          by (simp_all only: sum.inject prod.inject)
        have "r2' ix2 = (if ix2 = (?l, ?i, ?k, ?j) \<or> ix2 = (?i, ?l, ?j, ?k)
                      then float64_add env (r2 ix2) ?h else r2 ix2)"
          unfolding eq(2) by (rule upd_two [OF d, of r2 "\<lambda>v. float64_add env v ?h" ix2])
        then show ?thesis
          unfolding rdm1_add_simps(2) [OF False] rdm2_add_simps(1) [OF True c] eq(1) by blast
      next
        case c: False
        have "(Inr (r1', r2') :: error + rdm1_array \<times> rdm2_array) = Inr (r1, r2((?i, ?l, ?j, ?k) := float64_add env (r2 (?i, ?l, ?j, ?k)) e))"
          by (rule trans [OF sym [OF assms] accumulate_two_full [OF True bounds c]])
        then have eq: "r1' = r1"
          "r2' = r2((?i, ?l, ?j, ?k) := float64_add env (r2 (?i, ?l, ?j, ?k)) e)"
          by (simp_all only: sum.inject prod.inject)
        have "r2' ix2 = (if ix2 = (?i, ?l, ?j, ?k) then float64_add env (r2 ix2) e else r2 ix2)"
          unfolding eq(2) by (rule upd_one)
        then show ?thesis
          unfolding rdm1_add_simps(2) [OF False] rdm2_add_simps(2) [OF True c] eq(1) by blast
      qed
    next
      case n4: False
      from assms have "(Inr (r1, r2) :: error + rdm1_array \<times> rdm2_array) = Inr (r1', r2')"
        unfolding accumulate_other [OF False n4] .
      then have "r1' = r1" "r2' = r2" by (simp_all only: sum.inject prod.inject)
      then show ?thesis
        unfolding rdm1_add_simps(2) [OF False] rdm2_add_simps(3) [OF n4] by blast
    qed
  qed
  then show "r1' ix = rdm1_add env ix (r1 ix) (key, e)"
    and "r2' ix2 = rdm2_add env ix2 (r2 ix2) (key, e)" by blast+
qed

subsection \<open>The cache of \<open>get_rdm\<close>\<close>

text \<open>The two lists \<open>lookup_ham\<close> and \<open>lookup_val\<close> of the code, read side by side, are
  the cache of pairs of the specification: \<open>in\<close> and \<open>index\<close> on the first list are a
  lookup in the list of pairs.\<close>

lemma map_of_zip_index:
  "length xs = length ys \<Longrightarrow>
     map_of (zip xs ys) x = (if x \<in> set xs then Some (ys ! index_of xs x) else None)"
proof (induction xs arbitrary: ys)
  case Nil
  then show ?case by simp
next
  case (Cons a xs)
  then obtain b ys' where ys: "ys = b # ys'" "length xs = length ys'" by (cases ys) auto
  with Cons.IH [OF ys(2)] show ?case by auto
qed

lemma index_of_less: "x \<in> set xs \<Longrightarrow> index_of xs x < length xs"
  by (induction xs) auto

lemma term_energy_cached_energy:
  assumes "length (lookup_val loc) = length (lookup_ham loc)"
  shows "term_energy env var_params H ikey key loc s =
     (case cached_energy env var_params H ikey key (zip (lookup_ham loc) (lookup_val loc)) s of
        (Inl e, s1) \<Rightarrow> (Inl e, s1)
      | (Inr (energy, cache1), s1) \<Rightarrow>
          (Inr (energy, loc\<lparr>lookup_ham := map fst cache1, lookup_val := map snd cache1\<rparr>), s1))"
proof (cases "term_operator env H ikey key s")
  case (Inl e)
  then show ?thesis by (simp add: term_energy_def cached_energy_def)
next
  case (Inr q)
  from assms have len: "length (lookup_ham loc) = length (lookup_val loc)" by simp
  show ?thesis
  proof (cases "terms env q \<in> set (lookup_ham loc)")
    case True
    with Inr len index_of_less [OF True] show ?thesis
      by (simp add: term_energy_def cached_energy_def map_of_zip_index Let_def)
  next
    case False
    with Inr len show ?thesis
      by (simp add: term_energy_def cached_energy_def map_of_zip_index
          split: prod.split sum.split)
  qed
qed


lemma get_rdm_step_cached:
  assumes "lookup_ham loc = map fst cache" and "lookup_val loc = map snd cache"
    and "key \<noteq> []"
  shows "get_rdm_step env var_params H n ikey key loc s =
     (case cached_energy env var_params H ikey key cache s of
        (Inl e, s1) \<Rightarrow> (Inl e, s1)
      | (Inr (energy, cache1), s1) \<Rightarrow>
          (case accumulate env n key energy (rdm1_np loc) (rdm2_np loc) of
             Inl e \<Rightarrow> (Inl e, s1)
           | Inr (rdm1, rdm2) \<Rightarrow>
               (Inr \<lparr>rdm1_np = rdm1, rdm2_np = rdm2,
                     lookup_ham = map fst cache1, lookup_val = map snd cache1\<rparr>, s1)))"
proof -
  from assms(1,2) have len: "length (lookup_val loc) = length (lookup_ham loc)" by simp
  from assms(1,2) have z: "zip (lookup_ham loc) (lookup_val loc) = cache"
    by (simp add: zip_map_fst_snd)
  show ?thesis
    unfolding get_rdm_step_def term_energy_cached_energy [OF len] z
    using assms(3) by (simp split: prod.split sum.split)
qed

lemma get_rdm_loop_cached:
  "lookup_ham loc = map fst cache \<Longrightarrow> lookup_val loc = map snd cache \<Longrightarrow>
   get_rdm_loop env var_params H n xs loc s =
     (case cached_loop env var_params H n xs (rdm1_np loc) (rdm2_np loc) cache s of
        (Inl e, s1) \<Rightarrow> (Inl e, s1)
      | (Inr ((rdm1, rdm2), cache1), s1) \<Rightarrow>
          (Inr \<lparr>rdm1_np = rdm1, rdm2_np = rdm2,
                lookup_ham = map fst cache1, lookup_val = map snd cache1\<rparr>, s1))"
proof (induction xs arbitrary: loc cache s)
  case Nil
  then show ?case by simp
next
  case (Cons x rest)
  obtain ikey key where x: "x = (ikey, key)" by (cases x)
  show ?case
  proof (cases "key = []")
    case True
    with Cons.IH [OF Cons.prems] x show ?thesis by (simp add: get_rdm_step_def)
  next
    case False
    note st = get_rdm_step_cached [OF Cons.prems False, of env var_params H n ikey s]
    obtain r s1 where ce: "cached_energy env var_params H ikey key cache s = (r, s1)"
      by (cases "cached_energy env var_params H ikey key cache s")
    show ?thesis
    proof (cases r)
      case (Inl e)
      with ce st x False show ?thesis by simp
    next
      case (Inr ec)
      obtain energy cache1 where ec: "ec = (energy, cache1)" by (cases ec)
      show ?thesis
      proof (cases "accumulate env n key energy (rdm1_np loc) (rdm2_np loc)")
        case (Inl e)
        with ce Inr ec st x False show ?thesis by simp
      next
        case acc: (Inr rr)
        obtain rdm1 rdm2 where rr: "rr = (rdm1, rdm2)" by (cases rr)
        let ?loc1 = "\<lparr>rdm1_np = rdm1, rdm2_np = rdm2,
                     lookup_ham = map fst cache1, lookup_val = map snd cache1\<rparr>"
        have "get_rdm_step env var_params H n ikey key loc s = (Inr ?loc1, s1)"
          using st ce Inr ec acc rr by simp
        moreover have "get_rdm_loop env var_params H n rest ?loc1 s1 =
           (case cached_loop env var_params H n rest rdm1 rdm2 cache1 s1 of
              (Inl e, s2) \<Rightarrow> (Inl e, s2)
            | (Inr ((rdm1', rdm2'), cache2), s2) \<Rightarrow>
                (Inr \<lparr>rdm1_np = rdm1', rdm2_np = rdm2',
                      lookup_ham = map fst cache2, lookup_val = map snd cache2\<rparr>, s2))"
          using Cons.IH [of ?loc1 cache1 s1] by simp
        ultimately show ?thesis
          using ce Inr ec acc rr x False by simp
      qed
    qed
  qed
qed

lemma get_rdm_cached: "get_rdm env var_params s = cached_get_rdm env var_params s"
proof -
  have "get_rdm_loop env var_params H n xs initial_locals s =
     (case cached_loop env var_params H n xs (\<lambda>ix. 0) (\<lambda>ix. 0) [] s of
        (Inl e, s1) \<Rightarrow> (Inl e, s1)
      | (Inr ((rdm1, rdm2), cache1), s1) \<Rightarrow>
          (Inr \<lparr>rdm1_np = rdm1, rdm2_np = rdm2,
                lookup_ham = map fst cache1, lookup_val = map snd cache1\<rparr>, s1))" for H n xs
    using get_rdm_loop_cached [of initial_locals "[]" env var_params H n xs s]
    by (simp add: initial_locals_def)
  then show ?thesis
    by (simp add: get_rdm_def cached_get_rdm_def
        split: option.split ansatz_attr.split sum.split prod.split)
qed

lemma cached_loop_entries:
  "cached_loop env var_params H n xs rdm1 rdm2 cache s = (Inr ((rdm1', rdm2'), cache'), s')
   \<Longrightarrow> \<exists>es. term_energies env var_params H xs cache s = (Inr (es, cache'), s')
        \<and> map fst es = filter (\<lambda>key. key \<noteq> []) (map snd xs)
        \<and> (\<forall>ix. rdm1' ix = foldl (rdm1_add env ix) (rdm1 ix) es)
        \<and> (\<forall>ix. rdm2' ix = foldl (rdm2_add env ix) (rdm2 ix) es)"
proof (induction xs arbitrary: rdm1 rdm2 cache s)
  case Nil
  then show ?case by simp
next
  case (Cons x rest)
  obtain ikey key where x: "x = (ikey, key)" by (cases x)
  show ?case
  proof (cases "key = []")
    case True
    with Cons.prems x
    have "cached_loop env var_params H n rest rdm1 rdm2 cache s = (Inr ((rdm1', rdm2'), cache'), s')"
      by simp
    from Cons.IH [OF this] True x show ?thesis by simp
  next
    case False
    from Cons.prems x False obtain energy cache1 s1 r1 r2 where
      ce: "cached_energy env var_params H ikey key cache s = (Inr (energy, cache1), s1)"
      and acc: "accumulate env n key energy rdm1 rdm2 = Inr (r1, r2)"
      and lp: "cached_loop env var_params H n rest r1 r2 cache1 s1
          = (Inr ((rdm1', rdm2'), cache'), s')"
      by (auto split: prod.splits sum.splits)
    from Cons.IH [OF lp] obtain es where
      es: "term_energies env var_params H rest cache1 s1 = (Inr (es, cache'), s')"
        "map fst es = filter (\<lambda>key. key \<noteq> []) (map snd rest)"
        "\<forall>ix. rdm1' ix = foldl (rdm1_add env ix) (r1 ix) es"
        "\<forall>ix. rdm2' ix = foldl (rdm2_add env ix) (r2 ix) es"
      by blast
    have "term_energies env var_params H (x # rest) cache s = (Inr ((key, energy) # es, cache'), s')"
      using ce es(1) x False by simp
    moreover have "map fst ((key, energy) # es) = filter (\<lambda>key. key \<noteq> []) (map snd (x # rest))"
      using es(2) x False by simp
    moreover have "\<forall>ix. rdm1' ix = foldl (rdm1_add env ix) (rdm1 ix) ((key, energy) # es)"
      using es(3) accumulate_entries(1) [OF acc] by simp
    moreover have "\<forall>ix. rdm2' ix = foldl (rdm2_add env ix) (rdm2 ix) ((key, energy) # es)"
      using es(4) accumulate_entries(2) [OF acc] by simp
    ultimately show ?thesis by blast
  qed
qed

text \<open>The evaluations of the simulator during the loop.\<close>

lemma term_operator_config:
  "mapping_config s' = mapping_config s
     \<Longrightarrow> term_operator env H ikey key s' = term_operator env H ikey key s"
  by (auto simp: term_operator_def mapping_config_def split: option.split)

lemma term_structures_config:
  assumes "mapping_config s' = mapping_config s"
  shows "term_structures env H s' xs = term_structures env H s xs"
proof -
  have "term_structure env H s' ikey key = term_structure env H s ikey key" for ikey key
    unfolding term_structure_def by (simp only: term_operator_config [OF assms])
  then show ?thesis by (simp add: term_structures_def)
qed

lemma energy_estimation_config:
  "mapping_config (snd (energy_estimation env var_params s)) = mapping_config s"
  by (simp add: energy_estimation_def mapping_config_def Let_def
      split: ansatz_attr.split prod.split sum.split option.split)

lemma energy_estimation_counted:
  assumes "counts_evaluations env count"
    and "energy_estimation env var_params s = (Inr e, s1)" and "backend s = Some b"
  shows "\<exists>b1. backend s1 = Some b1 \<and> count b1 = Suc (count b)"
proof -
  from assms(2,3) obtain x1 q r where
    g: "get_expectation_value env b q (circuit env x1) = (r, the (backend s1))"
    and b1: "backend s1 = Some (the (backend s1))"
    by (auto simp: energy_estimation_def Let_def
        split: ansatz_attr.splits prod.splits sum.splits option.splits)
  from assms(1) have "count (snd (get_expectation_value env b q (circuit env x1))) = Suc (count b)"
    unfolding counts_evaluations_def by blast
  with g have "count (the (backend s1)) = Suc (count b)" by simp
  with b1 show ?thesis by blast
qed



lemma term_energy_counted:
  assumes "counts_evaluations env count"
    and "term_energy env var_params H ikey key loc s = (Inr (e, loc1), s1)"
    and "backend s = Some b" and "key \<noteq> []"
  shows "\<exists>b1 t. backend s1 = Some b1 \<and> mapping_config s1 = mapping_config s
     \<and> term_structure env H s ikey key = Some t
     \<and> (if t \<in> set (lookup_ham loc)
         then lookup_ham loc1 = lookup_ham loc \<and> count b1 = count b
         else lookup_ham loc1 = lookup_ham loc @ [t] \<and> count b1 = Suc (count b))"
proof -
  from assms(2) obtain q where q: "term_operator env H ikey key s = Inr q"
    by (auto simp: term_energy_def split: sum.splits)
  with assms(4) have ts: "term_structure env H s ikey key = Some (terms env q)"
    by (simp add: term_structure_def)
  show ?thesis
  proof (cases "terms env q \<in> set (lookup_ham loc)")
    case True
    with assms(2) q have "s1 = s" "loc1 = loc"
      by (auto simp: term_energy_def Let_def split: if_splits)
    with True ts assms(3) show ?thesis by simp
  next
    case False
    let ?s = "s\<lparr>qubit_hamiltonian := Some q\<rparr>"
    from assms(2) q False obtain
      ee: "energy_estimation env var_params ?s = (Inr e, s1)"
      and l1: "loc1 = loc\<lparr>lookup_ham := lookup_ham loc @ [terms env q],
                           lookup_val := lookup_val loc @ [e]\<rparr>"
      by (auto simp: term_energy_def split: sum.splits prod.splits)
    from assms(3) have "backend ?s = Some b" by simp
    from energy_estimation_counted [OF assms(1) ee this] obtain b1 where
      b1: "backend s1 = Some b1" "count b1 = Suc (count b)" by blast
    from energy_estimation_config [of env var_params ?s] ee
    have "mapping_config s1 = mapping_config ?s" by simp
    then have "mapping_config s1 = mapping_config s" by (simp add: mapping_config_def)
    with b1 l1 ts False show ?thesis by simp
  qed
qed

lemma get_rdm_step_counted:
  assumes "counts_evaluations env count"
    and "get_rdm_step env var_params H n ikey key loc s = (Inr loc1, s1)"
    and "backend s = Some b" and "distinct (lookup_ham loc)"
  shows "\<exists>b1. backend s1 = Some b1 \<and> mapping_config s1 = mapping_config s
     \<and> distinct (lookup_ham loc1)
     \<and> set (lookup_ham loc1) = set (lookup_ham loc) \<union> set_option (term_structure env H s ikey key)
     \<and> count b1 + length (lookup_ham loc) = count b + length (lookup_ham loc1)"
proof (cases "key = []")
  case True
  with assms(2) have "loc1 = loc" "s1 = s" by (simp_all add: get_rdm_step_def)
  with True assms(3,4) show ?thesis by (simp add: term_structure_def)
next
  case False
  with assms(2) obtain e locA rdm1 rdm2 where
    te: "term_energy env var_params H ikey key loc s = (Inr (e, locA), s1)"
    and loc1: "loc1 = locA\<lparr>rdm1_np := rdm1, rdm2_np := rdm2\<rparr>"
    by (auto simp: get_rdm_step_def split: sum.splits prod.splits)
  from loc1 have lk: "lookup_ham loc1 = lookup_ham locA" by simp
  from term_energy_counted [OF assms(1) te assms(3) False] obtain b1 t where
    b1: "backend s1 = Some b1" "mapping_config s1 = mapping_config s"
    and t: "term_structure env H s ikey key = Some t"
    and br: "if t \<in> set (lookup_ham loc)
         then lookup_ham locA = lookup_ham loc \<and> count b1 = count b
         else lookup_ham locA = lookup_ham loc @ [t] \<and> count b1 = Suc (count b)"
    by blast
  show ?thesis
  proof (cases "t \<in> set (lookup_ham loc)")
    case True
    with br have "lookup_ham locA = lookup_ham loc" "count b1 = count b" by simp_all
    with lk b1 t True assms(4) show ?thesis by auto
  next
    case False
    with br have "lookup_ham locA = lookup_ham loc @ [t]" "count b1 = Suc (count b)" by simp_all
    with lk b1 t False assms(4) show ?thesis by auto
  qed
qed

lemma term_structures_Cons:
  "set (term_structures env H s ((ikey, key) # rest))
     = set_option (term_structure env H s ikey key) \<union> set (term_structures env H s rest)"
  by (cases "term_structure env H s ikey key") (simp_all add: term_structures_def map_filter_simps)

lemma get_rdm_loop_counted:
  assumes "counts_evaluations env count"
  shows "get_rdm_loop env var_params H n xs loc s = (Inr loc', s') \<Longrightarrow> backend s = Some b
     \<Longrightarrow> distinct (lookup_ham loc)
     \<Longrightarrow> \<exists>b'. backend s' = Some b' \<and> mapping_config s' = mapping_config s
          \<and> distinct (lookup_ham loc')
          \<and> set (lookup_ham loc') = set (lookup_ham loc) \<union> set (term_structures env H s xs)
          \<and> count b' + length (lookup_ham loc) = count b + length (lookup_ham loc')"
proof (induction xs arbitrary: loc s b)
  case Nil
  then show ?case by (simp add: term_structures_def map_filter_simps)
next
  case (Cons x rest)
  obtain ikey key where x: "x = (ikey, key)" by (cases x)
  from Cons.prems(1) x obtain loc1 s1 where
    st: "get_rdm_step env var_params H n ikey key loc s = (Inr loc1, s1)"
    and lp: "get_rdm_loop env var_params H n rest loc1 s1 = (Inr loc', s')"
    by (auto split: sum.splits prod.splits)
  from get_rdm_step_counted [OF assms st Cons.prems(2) Cons.prems(3)] obtain b1 where
    b1: "backend s1 = Some b1" and cf: "mapping_config s1 = mapping_config s"
    and d1: "distinct (lookup_ham loc1)"
    and s1: "set (lookup_ham loc1)
        = set (lookup_ham loc) \<union> set_option (term_structure env H s ikey key)"
    and c1: "count b1 + length (lookup_ham loc) = count b + length (lookup_ham loc1)"
    by blast
  from Cons.IH [OF lp b1 d1] obtain b' where
    b': "backend s' = Some b'" and cf': "mapping_config s' = mapping_config s1"
    and d': "distinct (lookup_ham loc')"
    and s': "set (lookup_ham loc') = set (lookup_ham loc1) \<union> set (term_structures env H s1 rest)"
    and c': "count b' + length (lookup_ham loc1) = count b1 + length (lookup_ham loc')"
    by blast
  have "set (lookup_ham loc') = set (lookup_ham loc) \<union> set (term_structures env H s (x # rest))"
    using s' s1 by (simp add: x term_structures_Cons term_structures_config [OF cf] Un_assoc)
  moreover have "count b' + length (lookup_ham loc) = count b + length (lookup_ham loc')"
    using c1 c' by arith
  ultimately show ?case using b' cf cf' d' by simp
qed


lemma get_rdm_counted:
  assumes "counts_evaluations env count" and "get_rdm env var_params s = (Inr rdms, s')"
    and "backend s = Some b" and "fermionic_hamiltonian s = Some H"
  shows "\<exists>b'. backend s' = Some b'
     \<and> count b' = count b
          + card (set (term_structures env H s (List.enumerate 0 (map fst H))))"
proof -
  from assms(2,4) obtain n loc s1 tmp where
    lp: "get_rdm_loop env var_params H n (List.enumerate 0 (map fst H)) initial_locals s
       = (Inr loc, s1)"
    and s': "s' = s1\<lparr>qubit_hamiltonian := Some tmp\<rparr>"
    by (auto simp: get_rdm_def split: option.splits ansatz_attr.splits sum.splits prod.splits)
  have d0: "distinct (lookup_ham (initial_locals :: 'd rdm_locals))"
    by (simp add: initial_locals_def)
  from get_rdm_loop_counted [OF assms(1) lp assms(3) d0] obtain b' where
    b': "backend s1 = Some b'" and d: "distinct (lookup_ham loc)"
    and st: "set (lookup_ham loc) = set (lookup_ham (initial_locals :: 'd rdm_locals))
        \<union> set (term_structures env H s (List.enumerate 0 (map fst H)))"
    and c: "count b' + length (lookup_ham (initial_locals :: 'd rdm_locals))
        = count b + length (lookup_ham loc)"
    by blast
  from st have "set (lookup_ham loc) = set (term_structures env H s (List.enumerate 0 (map fst H)))"
    by (simp add: initial_locals_def)
  then have "card (set (term_structures env H s (List.enumerate 0 (map fst H))))
      = length (lookup_ham loc)"
    using d by (metis distinct_card)
  with c b' s' show ?thesis by (simp add: initial_locals_def)
qed

text \<open>
  Claim C5. \<open>get_rdm\<close> is the extraction with the cache of step 4 of the specification,
  \<open>cached_get_rdm\<close>, on every solver and every exit, with the same result and the same solver
  left behind: a term whose compressed structure is in the cache gets the energy cached
  with that structure, and the solver is not touched (no substitution of the active
  Hamiltonian, no call of the estimator); any other structure is made the active
  Hamiltonian, the estimator is called once, and the pair (structure, energy) is appended
  to the cache. And when the simulator counts its evaluations, a call of \<open>get_rdm\<close> that
  returns has made exactly as many as there are distinct compressed structures among the
  non-empty terms: one for each structure, none for a structure seen before.
\<close>

theorem get_rdm_estimator_calls:
  "get_rdm env var_params s = cached_get_rdm env var_params s
   \<and> (counts_evaluations env count \<and> get_rdm env var_params s = (Inr rdms, s')
        \<and> backend s = Some b \<and> fermionic_hamiltonian s = Some H
      \<longrightarrow> (\<exists>b'. backend s' = Some b'
             \<and> count b' = count b
                  + card (set (term_structures env H s (List.enumerate 0 (map fst H))))))"
  using get_rdm_cached [of env var_params s]
    get_rdm_counted [of env count var_params s rdms s' b H]
  by blast

theorem get_rdm_estimator_calls_witness:
  "counts_evaluations toy_env (\<lambda>b. b)
   \<and> (\<exists>rdms s'. get_rdm toy_env [1, 2] toy_built = (Inr rdms, s')
         \<and> cached_get_rdm toy_env [1, 2] toy_built = (Inr rdms, s') \<and> backend s' = Some 3)
   \<and> backend toy_built = Some 0 \<and> fermionic_hamiltonian toy_built = Some toy_H
   \<and> card (set (term_structures toy_env toy_H toy_built (List.enumerate 0 (map fst toy_H)))) = 3"
proof -
  have h1: "counts_evaluations toy_env (\<lambda>b. b)"
    by (simp add: counts_evaluations_def toy_env_def)
  have "\<exists>rdms s'. get_rdm toy_env [1, 2] toy_built = (Inr rdms, s')"
    by (simp add: toy_run)
  then obtain rdms s' where h2: "get_rdm toy_env [1, 2] toy_built = (Inr rdms, s')" by blast
  have h3: "backend toy_built = Some 0" by (simp add: toy_built_def)
  have h4: "fermionic_hamiltonian toy_built = Some toy_H" by (simp add: toy_built_def)
  have h5: "card (set (term_structures toy_env toy_H toy_built (List.enumerate 0 (map fst toy_H)))) = 3"
    by (simp add: term_structures_def term_structure_def map_filter_simps term_operator_def
        select_term_def toy_built_def toy_env_def toy_H_def toy_mapping_def orbital_def
        enumerate_eq_zip upt_rec card_set)
  note t = get_rdm_estimator_calls [of toy_env "[1, 2]" toy_built "\<lambda>b. b" rdms s' 0 toy_H]
  from t h1 h2 h3 h4 h5 have "backend s' = Some 3" by simp
  moreover from t h2 have "cached_get_rdm toy_env [1, 2] toy_built = (Inr rdms, s')" by simp
  ultimately show ?thesis using h1 h2 h3 h4 h5 by blast
qed

text \<open>
  Claim C6. Let \<open>get_rdm\<close> return the arrays \<open>rdm1\<close> and \<open>rdm2\<close>. The loop has then
  obtained an energy for every non-empty term key of the Hamiltonian, in the order of
  the keys, and for none other (the length-0 constant term has no energy and contributes
  nothing), and every entry of the returned arrays is what the additions of step 5 make of
  the zero the arrays start with: a one-body term adds its energy at \<open>rdm1[i, j]\<close>; a
  two-body term with collapsed indices \<open>(i, j, k, l)\<close> adds 0.5 times its energy at
  \<open>rdm2[l, i, k, j]\<close> and at \<open>rdm2[i, l, j, k]\<close> when \<open>i \<noteq> l\<close> or \<open>j \<noteq> k\<close>, and
  otherwise its full energy once at \<open>rdm2[i, l, j, k]\<close>; a key of any other length adds
  nothing. The additions and the product by 0.5 are those of float64.
\<close>

theorem get_rdm_arrays:
  assumes "get_rdm env var_params s = (Inr (rdm1, rdm2), s')"
    and "fermionic_hamiltonian s = Some H"
  shows "\<exists>es cache s1.
       term_energies env var_params H (List.enumerate 0 (map fst H)) [] s = (Inr (es, cache), s1)
     \<and> map fst es = filter (\<lambda>key. key \<noteq> []) (map fst H)
     \<and> rdm1 = rdm1_entry env es \<and> rdm2 = rdm2_entry env es"
proof -
  from assms have "cached_get_rdm env var_params s = (Inr (rdm1, rdm2), s')"
    by (simp add: get_rdm_cached)
  with assms(2) obtain n cache s1 where
    lp: "cached_loop env var_params H n (List.enumerate 0 (map fst H)) (\<lambda>ix. 0) (\<lambda>ix. 0) [] s
        = (Inr ((rdm1, rdm2), cache), s1)"
    by (auto simp: cached_get_rdm_def
        split: option.splits ansatz_attr.splits sum.splits prod.splits)
  from cached_loop_entries [OF lp] obtain es where
    es: "term_energies env var_params H (List.enumerate 0 (map fst H)) [] s = (Inr (es, cache), s1)"
      "map fst es = filter (\<lambda>key. key \<noteq> []) (map snd (List.enumerate 0 (map fst H)))"
      "\<forall>ix. rdm1 ix = foldl (rdm1_add env ix) 0 es"
      "\<forall>ix. rdm2 ix = foldl (rdm2_add env ix) 0 es"
    by blast
  have "map snd (List.enumerate 0 (map fst H)) = map fst H"
    by (simp add: enumerate_eq_zip)
  with es(2) have k: "map fst es = filter (\<lambda>key. key \<noteq> []) (map fst H)" by simp
  from es(3) have "rdm1 = rdm1_entry env es" by (simp add: rdm1_entry_def fun_eq_iff)
  moreover from es(4) have "rdm2 = rdm2_entry env es" by (simp add: rdm2_entry_def fun_eq_iff)
  ultimately show ?thesis using es(1) k by blast
qed

theorem get_rdm_arrays_witness:
  "\<exists>rdm1 rdm2 s'. get_rdm toy_env [1, 2] toy_built = (Inr (rdm1, rdm2), s')
     \<and> fermionic_hamiltonian toy_built = Some toy_H
     \<and> fst (term_energies toy_env [1, 2] toy_H (List.enumerate 0 (map fst toy_H)) [] toy_built)
         = Inr ([([(0, 1), (0, 0)], 4), ([(1, 1), (1, 0)], 4),
                 ([(0, 1), (2, 1), (2, 0), (0, 0)], 4), ([(0, 1), (1, 1), (3, 0), (2, 0)], 4)],
                [([([(0, 1), (0, 0)], 1)], 4), ([([(0, 1), (1, 1), (1, 0), (0, 0)], 1)], 4),
                 ([([(0, 1), (0, 1), (1, 0), (1, 0)], 1)], 4)])
     \<and> rdm1 (0, 0) = 8 \<and> rdm1 (0, 1) = 0
     \<and> rdm2 (0, 0, 1, 1) = 4 \<and> rdm2 (1, 0, 1, 0) = 2 \<and> rdm2 (0, 1, 0, 1) = 2
     \<and> rdm2 (0, 1, 1, 0) = 0"
proof -
  have "\<exists>rdms s'. get_rdm toy_env [1, 2] toy_built = (Inr rdms, s')"
    by (simp add: toy_run)
  then obtain rdm1 rdm2 s' where h1: "get_rdm toy_env [1, 2] toy_built = (Inr (rdm1, rdm2), s')"
    by auto
  have h2: "fermionic_hamiltonian toy_built = Some toy_H" by (simp add: toy_built_def)
  have te: "fst (term_energies toy_env [1, 2] toy_H (List.enumerate 0 (map fst toy_H)) [] toy_built)
         = Inr ([([(0, 1), (0, 0)], 4), ([(1, 1), (1, 0)], 4),
                 ([(0, 1), (2, 1), (2, 0), (0, 0)], 4), ([(0, 1), (1, 1), (3, 0), (2, 0)], 4)],
                [([([(0, 1), (0, 0)], 1)], 4), ([([(0, 1), (1, 1), (1, 0), (0, 0)], 1)], 4),
                 ([([(0, 1), (0, 1), (1, 0), (1, 0)], 1)], 4)])"
    by (simp add: cached_energy_def term_operator_def select_term_def energy_estimation_def
        toy_built_def toy_env_def toy_H_def toy_mapping_def orbital_def enumerate_eq_zip
        upt_rec Let_def)
  from get_rdm_arrays [OF h1 h2] te have
    r: "rdm1 = rdm1_entry toy_env [([(0, 1), (0, 0)], 4), ([(1, 1), (1, 0)], 4),
                 ([(0, 1), (2, 1), (2, 0), (0, 0)], 4), ([(0, 1), (1, 1), (3, 0), (2, 0)], 4)]"
       "rdm2 = rdm2_entry toy_env [([(0, 1), (0, 0)], 4), ([(1, 1), (1, 0)], 4),
                 ([(0, 1), (2, 1), (2, 0), (0, 0)], 4), ([(0, 1), (1, 1), (3, 0), (2, 0)], 4)]"
    by auto
  have f: "float64_add toy_env = (\<lambda>x y. x + y)" "float64_mul toy_env = (\<lambda>x y. x * y)"
    by (simp_all add: toy_env_def)
  have "rdm1 (0, 0) = 8" "rdm1 (0, 1) = 0"
    unfolding r by (simp_all add: rdm1_entry_def rdm1_add_def orbital_def f)
  moreover have "rdm2 (0, 0, 1, 1) = 4" "rdm2 (1, 0, 1, 0) = 2" "rdm2 (0, 1, 0, 1) = 2"
    "rdm2 (0, 1, 1, 0) = 0"
    unfolding r by (simp_all add: rdm2_entry_def rdm2_add_def orbital_def f Let_def)
  ultimately show ?thesis using h1 h2 te by blast
qed

end
